theory Spec2Isabelle
  imports Complex_Main "HOL-Library.Char_ord" "HOL-Library.List_Lexorder"
begin

section \<open>Python values carried by a webhook body\<close>

text \<open>
  The webhook handler of \<^verbatim>\<open>app.py\<close> works on whatever \<^verbatim>\<open>request.get_json\<close> hands
  it: \<^verbatim>\<open>None\<close>, booleans, integers, strings, lists and dicts with string keys. A dict is
  kept as its list of items (lookup takes the first item with the key). JSON numbers
  with a fraction are left out of the model. A \<^typ>\<open>char\<close> stands for one code point below 256.
\<close>

datatype json =
    JNull
  | JBool bool
  | JInt int
  | JStr string
  | JArr "json list"
  | JObj "(string \<times> json) list"

text \<open>Python truth value testing: \<^verbatim>\<open>bool(v)\<close>.\<close>

fun py_truthy :: "json \<Rightarrow> bool" where
  "py_truthy JNull = False"
| "py_truthy (JBool b) = b"
| "py_truthy (JInt i) = (i \<noteq> 0)"
| "py_truthy (JStr s) = (s \<noteq> [])"
| "py_truthy (JArr xs) = (xs \<noteq> [])"
| "py_truthy (JObj kvs) = (kvs \<noteq> [])"

text \<open>\<^verbatim>\<open>a or b\<close>: the first operand when it is truthy, the second otherwise.\<close>

definition py_or :: "json \<Rightarrow> json \<Rightarrow> json" where
  "py_or a b = (if py_truthy a then a else b)"

text \<open>\<^verbatim>\<open>d.get(k, default)\<close> on a dict.\<close>

definition dict_get :: "(string \<times> json) list \<Rightarrow> string \<Rightarrow> json \<Rightarrow> json" where
  "dict_get kvs k dflt = (case map_of kvs k of None \<Rightarrow> dflt | Some v \<Rightarrow> v)"

subsection \<open>\<^verbatim>\<open>str()\<close> and \<^verbatim>\<open>strip()\<close>\<close>

definition digit_char :: "nat \<Rightarrow> char" where
  "digit_char n = char_of (48 + n)"

fun str_nat :: "nat \<Rightarrow> string" where
  "str_nat n = (if n < 10 then [digit_char n] else str_nat (n div 10) @ [digit_char (n mod 10)])"

definition str_int :: "int \<Rightarrow> string" where
  "str_int i = (if i < 0 then CHR ''-'' # str_nat (nat (- i)) else str_nat (nat i))"

definition hex_char :: "nat \<Rightarrow> char" where
  "hex_char n = (if n < 10 then char_of (48 + n) else char_of (87 + n))"

definition py_printable :: "char \<Rightarrow> bool" where
  "py_printable c =
     (let n = (of_char c :: nat) in (32 \<le> n \<and> n < 127) \<or> (161 \<le> n \<and> n \<noteq> 173))"

text \<open>One character of \<^verbatim>\<open>repr(s)\<close> for a string, \<open>q\<close> being the quote in use.\<close>

definition repr_char :: "char \<Rightarrow> char \<Rightarrow> string" where
  "repr_char q c =
     (if c = q \<or> c = CHR 0x5C then [CHR 0x5C, c]
      else if c = CHR 0x09 then [CHR 0x5C, CHR ''t'']
      else if c = CHR 0x0A then [CHR 0x5C, CHR ''n'']
      else if c = CHR 0x0D then [CHR 0x5C, CHR ''r'']
      else if \<not> py_printable c then
        [CHR 0x5C, CHR ''x'', hex_char (of_char c div 16), hex_char (of_char c mod 16)]
      else [c])"

definition repr_str :: "string \<Rightarrow> string" where
  "repr_str s =
     (let q = (if CHR 0x27 \<in> set s \<and> CHR 0x22 \<notin> set s then CHR 0x22 else CHR 0x27)
      in q # concat (map (repr_char q) s) @ [q])"

fun join_str :: "string \<Rightarrow> string list \<Rightarrow> string" where
  "join_str sep [] = []"
| "join_str sep [x] = x"
| "join_str sep (x # y # ys) = x @ sep @ join_str sep (y # ys)"

fun py_repr :: "json \<Rightarrow> string"
  and py_repr_list :: "json list \<Rightarrow> string list"
  and py_repr_items :: "(string \<times> json) list \<Rightarrow> string list" where
  "py_repr JNull = ''None''"
| "py_repr (JBool b) = (if b then ''True'' else ''False'')"
| "py_repr (JInt i) = str_int i"
| "py_repr (JStr s) = repr_str s"
| "py_repr (JArr xs) = ''['' @ join_str '', '' (py_repr_list xs) @ '']''"
| "py_repr (JObj kvs) = ''{'' @ join_str '', '' (py_repr_items kvs) @ ''}''"
| "py_repr_list [] = []"
| "py_repr_list (x # xs) = py_repr x # py_repr_list xs"
| "py_repr_items [] = []"
| "py_repr_items ((k, v) # kvs) = (repr_str k @ '': '' @ py_repr v) # py_repr_items kvs"

text \<open>\<^verbatim>\<open>str(v)\<close>: a string is itself, everything else prints as its \<^verbatim>\<open>repr\<close>.\<close>

definition py_str :: "json \<Rightarrow> string" where
  "py_str v = (case v of JStr s \<Rightarrow> s | _ \<Rightarrow> py_repr v)"

text \<open>The characters \<^verbatim>\<open>str.strip()\<close> removes (\<^verbatim>\<open>str.isspace\<close>, code points below 256).\<close>

definition py_isspace :: "char \<Rightarrow> bool" where
  "py_isspace c =
     (let n = (of_char c :: nat)
      in (9 \<le> n \<and> n \<le> 13) \<or> (28 \<le> n \<and> n \<le> 32) \<or> n = 133 \<or> n = 160)"

definition py_strip :: "string \<Rightarrow> string" where
  "py_strip s = rev (dropWhile py_isspace (rev (dropWhile py_isspace s)))"

section \<open>Digit extraction (\<^verbatim>\<open>app.py\<close>, \<^verbatim>\<open>_extract_digits\<close>)\<close>

text \<open>
  \<^verbatim>\<open>
  def _extract_digits(event_payload):
      d = event_payload.get("digit") or event_payload.get("digits")
      if d:
          return str(d).strip()
      res = event_payload.get("result") or event_payload.get("dtmf") or {}
      if isinstance(res, dict):
          return str(res.get("digits") or res.get("digit") or "").strip()
      return ""
  \<close>
  The argument is a dict at the only call site (the handler has already called
  \<^verbatim>\<open>ev.get\<close> on it), so the model takes the dict's items.
\<close>

definition extract_digits :: "(string \<times> json) list \<Rightarrow> string" where
  "extract_digits event_payload =
     (let d = py_or (dict_get event_payload ''digit'' JNull)
                    (dict_get event_payload ''digits'' JNull)
      in if py_truthy d then py_strip (py_str d)
         else
           (let res = py_or (py_or (dict_get event_payload ''result'' JNull)
                                   (dict_get event_payload ''dtmf'' JNull))
                            (JObj [])
            in case res of
                 JObj r \<Rightarrow>
                   py_strip (py_str (py_or (py_or (dict_get r ''digits'' JNull)
                                                  (dict_get r ''digit'' JNull))
                                           (JStr [])))
               | _ \<Rightarrow> []))"


section \<open>Event store (\<^verbatim>\<open>analytics_db.py\<close>)\<close>

text \<open>
  Modelled from the spec: \<^verbatim>\<open>db/schema.sql\<close> is not among the sources. The four tables
  have the columns the INSERT statements of \<^verbatim>\<open>analytics_db.py\<close> name; every column
  holds text (the spec calls the call identifier an opaque string). A row the schema
  would reject shows as a statement that raises. A table keeps the order of insertion.
\<close>

record call_row =
  call_id :: string
  call_from :: string
  call_to :: string
  call_created_at :: string

record event_row =
  ev_call_id :: string
  ev_type :: string
  ev_ts :: string
  ev_payload :: "json option"

record ivr_row =
  ivr_call_id :: string
  ivr_digit :: string
  ivr_department :: string
  ivr_ts :: string

record transfer_row =
  tr_call_id :: string
  tr_to_sip_uri :: string
  tr_status :: string
  tr_ts :: string

record tables =
  calls :: "call_row list"
  call_events :: "event_row list"
  ivr_interactions :: "ivr_row list"
  transfers :: "transfer_row list"

text \<open>The store is the database file: \<open>None\<close> while the file does not exist.\<close>

type_synonym store = "tables option"

definition empty_tables :: tables where
  "empty_tables = \<lparr>calls = [], call_events = [], ivr_interactions = [], transfers = []\<rparr>"

definition stored_calls :: "store \<Rightarrow> call_row list" where
  "stored_calls d = (case d of None \<Rightarrow> [] | Some t \<Rightarrow> calls t)"

definition stored_events :: "store \<Rightarrow> event_row list" where
  "stored_events d = (case d of None \<Rightarrow> [] | Some t \<Rightarrow> call_events t)"

definition stored_ivr :: "store \<Rightarrow> ivr_row list" where
  "stored_ivr d = (case d of None \<Rightarrow> [] | Some t \<Rightarrow> ivr_interactions t)"

definition stored_transfers :: "store \<Rightarrow> transfer_row list" where
  "stored_transfers d = (case d of None \<Rightarrow> [] | Some t \<Rightarrow> transfers t)"

text \<open>
  What the world outside the process does during one webhook delivery: whether
  \<^verbatim>\<open>init_db\<close> succeeds if it is attempted; for each store function whether its SQL
  statements go through (\<open>Some now\<close>, \<open>now\<close> being what
  \<^verbatim>\<open>datetime.utcnow().isoformat()\<close> returns for the row's timestamp) or sqlite raises
  (\<open>None\<close>); and for each provider command what \<^verbatim>\<open>requests.post\<close> does (\<open>None\<close>: it
  raises; \<open>Some c\<close>: a response with status code \<open>c\<close>). Every function below is called
  at most once per delivery.
\<close>

record env =
  init_db_ok :: bool
  save_call_sql :: "string option"
  log_event_sql :: "string option"
  log_ivr_sql :: "string option"
  log_transfer_sql :: "string option"
  answer_http :: "int option"
  menu_http :: "int option"
  transfer_http :: "int option"

datatype exn = AttributeError | TypeError | KeyError | ValueError | StoreInitError

text \<open>
  Binding a Python value to a statement parameter of a text column: strings as they are,
  integers (and booleans, which are integers) as decimal text when they fit 64 bits;
  lists, dicts and wider integers make sqlite raise. \<^verbatim>\<open>None\<close> is never bound by the
  handler (every bound value is truthy or a string).
\<close>

definition sql_text :: "json \<Rightarrow> string option" where
  "sql_text v =
     (case v of
        JStr s \<Rightarrow> Some s
      | JInt i \<Rightarrow> (if - (2 ^ 63) \<le> i \<and> i < 2 ^ 63 then Some (str_int i) else None)
      | JBool b \<Rightarrow> Some (if b then ''1'' else ''0'')
      | _ \<Rightarrow> None)"

text \<open>
  \<^verbatim>\<open>ensure_db\<close>: when the database file is missing, \<^verbatim>\<open>init_db\<close> runs; it either creates
  the file with empty tables or logs and re-raises (the model takes the failure to happen
  before the file is created, as when the schema file cannot be read). The result is the
  tables of the file that now exists.
\<close>

definition ensure_db :: "bool \<Rightarrow> store \<Rightarrow> exn + tables" where
  "ensure_db init_ok st =
     (case st of
        Some t \<Rightarrow> Inr t
      | None \<Rightarrow> if init_ok then Inr empty_tables else Inl StoreInitError)"

text \<open>
  \<^verbatim>\<open>save_call_if_new\<close>: \<^verbatim>\<open>ensure_db()\<close> stands outside the \<^verbatim>\<open>try\<close>; inside it, a
  SELECT looks the call up and returns when a row exists, otherwise a row is inserted. Any
  exception inside the \<^verbatim>\<open>try\<close> is logged and swallowed, and nothing is written.
\<close>

definition save_call_if_new :: "env \<Rightarrow> json \<Rightarrow> json \<Rightarrow> json \<Rightarrow> store \<Rightarrow> exn + store" where
  "save_call_if_new e call_control_id from_number to_number st =
     (case ensure_db (init_db_ok e) st of
        Inl x \<Rightarrow> Inl x
      | Inr t \<Rightarrow>
          Inr (Some
            (case (save_call_sql e, sql_text call_control_id) of
               (Some now, Some c) \<Rightarrow>
                 if c \<in> set (map call_id (calls t)) then t
                 else (case (sql_text from_number, sql_text to_number) of
                         (Some f, Some to) \<Rightarrow>
                           t\<lparr>calls := calls t @
                             [\<lparr>call_id = c, call_from = f, call_to = to,
                               call_created_at = now @ ''Z''\<rparr>]\<rparr>
                       | _ \<Rightarrow> t)
             | _ \<Rightarrow> t)))"

text \<open>
  \<^verbatim>\<open>log_event\<close>: the row keeps the payload itself where the code keeps its
  \<^verbatim>\<open>json.dumps\<close> text, and no payload when the dict is empty.
\<close>

definition log_event :: "env \<Rightarrow> json \<Rightarrow> json \<Rightarrow> json \<Rightarrow> store \<Rightarrow> exn + store" where
  "log_event e call_control_id event_type payload_dict st =
     (case ensure_db (init_db_ok e) st of
        Inl x \<Rightarrow> Inl x
      | Inr t \<Rightarrow>
          Inr (Some
            (case (log_event_sql e, sql_text call_control_id, sql_text event_type) of
               (Some now, Some c, Some ty) \<Rightarrow>
                 t\<lparr>call_events := call_events t @
                   [\<lparr>ev_call_id = c, ev_type = ty, ev_ts = now @ ''Z'',
                     ev_payload = (if py_truthy payload_dict then Some payload_dict
                                   else None)\<rparr>]\<rparr>
             | _ \<Rightarrow> t)))"

definition valid_departments :: "string set" where
  "valid_departments = {''sales'', ''support'', ''porting''}"

definition log_ivr_selection :: "env \<Rightarrow> json \<Rightarrow> string \<Rightarrow> string \<Rightarrow> store \<Rightarrow> exn + store" where
  "log_ivr_selection e call_control_id digit department st =
     (case ensure_db (init_db_ok e) st of
        Inl x \<Rightarrow> Inl x
      | Inr t \<Rightarrow>
          Inr (Some
            (if department \<notin> valid_departments then t
             else (case (log_ivr_sql e, sql_text call_control_id) of
                     (Some now, Some c) \<Rightarrow>
                       t\<lparr>ivr_interactions := ivr_interactions t @
                         [\<lparr>ivr_call_id = c, ivr_digit = digit,
                           ivr_department = department, ivr_ts = now @ ''Z''\<rparr>]\<rparr>
                   | _ \<Rightarrow> t))))"

definition log_transfer :: "env \<Rightarrow> json \<Rightarrow> string \<Rightarrow> string \<Rightarrow> store \<Rightarrow> exn + store" where
  "log_transfer e call_control_id to_sip_uri status st =
     (case ensure_db (init_db_ok e) st of
        Inl x \<Rightarrow> Inl x
      | Inr t \<Rightarrow>
          Inr (Some
            (if status \<notin> {''success'', ''error''} then t
             else (case (log_transfer_sql e, sql_text call_control_id) of
                     (Some now, Some c) \<Rightarrow>
                       t\<lparr>transfers := transfers t @
                         [\<lparr>tr_call_id = c, tr_to_sip_uri = to_sip_uri,
                           tr_status = status, tr_ts = now @ ''Z''\<rparr>]\<rparr>
                   | _ \<Rightarrow> t))))"

section \<open>Provider client and routing state (\<^verbatim>\<open>app.py\<close>)\<close>

record config =
  sales_sip_uri :: string
  support_sip_uri :: string
  porting_sip_uri :: string

definition DEPARTMENT_URIS :: "config \<Rightarrow> (string \<times> string) list" where
  "DEPARTMENT_URIS cfg =
     [(''sales'', sales_sip_uri cfg), (''support'', support_sip_uri cfg),
      (''porting'', porting_sip_uri cfg)]"

definition DIGIT_TO_DEPARTMENT :: "(string \<times> string) list" where
  "DIGIT_TO_DEPARTMENT = [(''1'', ''sales''), (''2'', ''support''), (''3'', ''porting'')]"

definition API_BASE :: string where
  "API_BASE = ''https://api.telnyx.com/v2''"

text \<open>
  An outbound POST as \<^verbatim>\<open>_post\<close> sends it. The \<^verbatim>\<open>command_id\<close>, a fresh random UUID,
  is left out of the body.
\<close>

record http_request =
  url :: string
  body :: "(string \<times> json) list"

text \<open>
  A member of a Python set is found by hash and equality: \<^verbatim>\<open>True\<close> and \<^verbatim>\<open>1\<close> are
  the same member, a list or a dict is unhashable (\<^verbatim>\<open>TypeError\<close>).
\<close>

datatype key = KNone | KNum int | KStr string

definition py_hash :: "json \<Rightarrow> key option" where
  "py_hash v =
     (case v of
        JNull \<Rightarrow> Some KNone
      | JBool b \<Rightarrow> Some (KNum (if b then 1 else 0))
      | JInt i \<Rightarrow> Some (KNum i)
      | JStr s \<Rightarrow> Some (KStr s)
      | JArr _ \<Rightarrow> None
      | JObj _ \<Rightarrow> None)"

text \<open>
  The process state: the two module-level sets, the store, and the trace of the POSTs sent
  to the provider so far.
\<close>

record state =
  ROUTED_CALLS :: "key set"
  ENDED_CALLS :: "key set"
  db :: store
  posts :: "http_request list"

text \<open>
  \<^verbatim>\<open>bool(r and r.status_code == 200)\<close>: \<^verbatim>\<open>r\<close> is \<^verbatim>\<open>None\<close> when \<^verbatim>\<open>requests.post\<close>
  raised, and a \<^verbatim>\<open>Response\<close> is falsy when its status is a 4xx or 5xx.
\<close>

definition response_ok :: "int option \<Rightarrow> bool" where
  "response_ok r =
     (case r of None \<Rightarrow> False | Some c \<Rightarrow> (if 400 \<le> c \<and> c < 600 then False else c = 200))"

definition answer_request :: "json \<Rightarrow> http_request" where
  "answer_request ccid =
     \<lparr>url = API_BASE @ ''/calls/'' @ py_str ccid @ ''/actions/answer'', body = []\<rparr>"

definition transfer_request :: "json \<Rightarrow> string \<Rightarrow> http_request" where
  "transfer_request ccid sip_uri =
     \<lparr>url = API_BASE @ ''/calls/'' @ py_str ccid @ ''/actions/transfer'',
      body = [(''to'', JStr sip_uri)]\<rparr>"

definition menu_body :: "(string \<times> json) list" where
  "menu_body =
     [(''payload'', JStr (''Welcome to Telnyx Contact Center. '' @
         ''For Sales, press 1. For Support, press 2. For Porting, press 3.'')),
      (''invalid_payload'',
         JStr ''Sorry, try again. 1 for Sales, 2 for Support, 3 for Porting.''),
      (''payload_type'', JStr ''text''),
      (''service_level'', JStr ''premium''),
      (''voice'', JStr ''Telnyx.KokoroTTS.af''),
      (''minimum_digits'', JInt 1),
      (''maximum_digits'', JInt 1),
      (''valid_digits'', JStr ''123''),
      (''timeout_millis'', JInt 8000)]"

definition menu_request :: "json \<Rightarrow> http_request" where
  "menu_request ccid =
     \<lparr>url = API_BASE @ ''/calls/'' @ py_str ccid @ ''/actions/gather_using_speak'',
      body = menu_body\<rparr>"

definition answer_call :: "env \<Rightarrow> json \<Rightarrow> state \<Rightarrow> bool \<times> state" where
  "answer_call e ccid s =
     (response_ok (answer_http e), s\<lparr>posts := posts s @ [answer_request ccid]\<rparr>)"

definition transfer_call :: "env \<Rightarrow> json \<Rightarrow> string \<Rightarrow> state \<Rightarrow> bool \<times> state" where
  "transfer_call e ccid sip_uri s =
     (response_ok (transfer_http e),
      s\<lparr>posts := posts s @ [transfer_request ccid sip_uri]\<rparr>)"

text \<open>
  \<^verbatim>\<open>start_menu\<close> returns nothing: when its POST fails, the failure is written to the
  process log (which the model does not keep) and dropped.
\<close>

definition start_menu :: "env \<Rightarrow> json \<Rightarrow> state \<Rightarrow> state" where
  "start_menu e ccid s =
     (let r = menu_http e;
          s1 = s\<lparr>posts := posts s @ [menu_request ccid]\<rparr>
      in if \<not> response_ok r then s1 else s1)"

text \<open>The POSTs sent between two states of one process.\<close>

definition new_posts :: "state \<Rightarrow> state \<Rightarrow> http_request list" where
  "new_posts s s' = drop (length (posts s)) (posts s')"

section \<open>The webhook handler (\<^verbatim>\<open>app.py\<close>, \<^verbatim>\<open>webhook\<close>)\<close>

record response =
  status_code :: nat
  json_body :: "(string \<times> json) list"

definition jsonify :: "(string \<times> json) list \<Rightarrow> nat \<Rightarrow> response" where
  "jsonify d code = \<lparr>status_code = code, json_body = d\<rparr>"

text \<open>The branch for \<^verbatim>\<open>call.initiated\<close>.\<close>

definition on_initiated :: "env \<Rightarrow> json \<Rightarrow> state \<Rightarrow> (exn + response) \<times> state" where
  "on_initiated e ev s =
     (case ev of
        JObj kvs \<Rightarrow>
          (let ccid = dict_get kvs ''call_control_id'' JNull;
               from_number = py_or (dict_get kvs ''from'' JNull) (JStr ''unknown'');
               to_number = py_or (dict_get kvs ''to'' JNull) (JStr ''unknown'')
           in if \<not> py_truthy ccid
              then (Inr (jsonify [(''status'', JStr ''missing_call_control_id'')] 200), s)
              else
                (case save_call_if_new e ccid from_number to_number (db s) of
                   Inl x \<Rightarrow> (Inl x, s)
                 | Inr d1 \<Rightarrow>
                     (case log_event e ccid (JStr ''call.initiated'') ev d1 of
                        Inl x \<Rightarrow> (Inl x, s\<lparr>db := d1\<rparr>)
                      | Inr d2 \<Rightarrow>
                          (case answer_call e ccid (s\<lparr>db := d2\<rparr>) of
                             (ok, s1) \<Rightarrow>
                               if \<not> ok
                               then (Inr (jsonify [(''status'', JStr ''answer_failed'')] 200), s1)
                               else (Inr (jsonify
                                       [(''status'', JStr ''answered_and_menu_started'')] 200),
                                     start_menu e ccid s1)))))
      | _ \<Rightarrow> (Inl AttributeError, s))"

text \<open>
  The branch for \<^verbatim>\<open>call.gather.ended\<close>. \<^verbatim>\<open>digit or ""\<close> is \<^verbatim>\<open>digit\<close>, a string
  already; \<^verbatim>\<open>if dept\<close> holds for a table entry that is a non-empty string.
\<close>

definition on_gather_ended :: "config \<Rightarrow> env \<Rightarrow> json \<Rightarrow> state \<Rightarrow> (exn + response) \<times> state" where
  "on_gather_ended cfg e ev s =
     (case ev of
        JObj kvs \<Rightarrow>
          (let ccid = dict_get kvs ''call_control_id'' JNull
           in if \<not> py_truthy ccid
              then (Inr (jsonify [(''status'', JStr ''gather_ignored'')] 200), s)
              else
                (case py_hash ccid of
                   None \<Rightarrow> (Inl TypeError, s)
                 | Some k \<Rightarrow>
                     if k \<in> ROUTED_CALLS s \<or> k \<in> ENDED_CALLS s
                     then (Inr (jsonify [(''status'', JStr ''gather_ignored'')] 200), s)
                     else
                       (case log_event e ccid (JStr ''call.gather.ended'') ev (db s) of
                          Inl x \<Rightarrow> (Inl x, s)
                        | Inr d1 \<Rightarrow>
                            (let digit = extract_digits kvs;
                                 dept = map_of DIGIT_TO_DEPARTMENT
                                          (if digit \<noteq> [] then digit else []);
                                 ack = jsonify [(''status'', JStr ''gather_processed''),
                                                (''digit'', JStr digit)] 200;
                                 replay = (Inr ack, start_menu e ccid (s\<lparr>db := d1\<rparr>))
                             in case dept of
                                  None \<Rightarrow> replay
                                | Some dp \<Rightarrow>
                                    if dp = [] then replay
                                    else
                                      (case log_ivr_selection e ccid digit dp d1 of
                                         Inl x \<Rightarrow> (Inl x, s\<lparr>db := d1\<rparr>)
                                       | Inr d2 \<Rightarrow>
                                           (case map_of (DEPARTMENT_URIS cfg) dp of
                                              None \<Rightarrow> (Inl KeyError, s\<lparr>db := d2\<rparr>)
                                            | Some to_uri \<Rightarrow>
                                                (case transfer_call e ccid to_uri
                                                        (s\<lparr>db := d2\<rparr>) of
                                                   (transfer_success, s1) \<Rightarrow>
                                                     (case log_transfer e ccid to_uri
                                                             (if transfer_success
                                                              then ''success''
                                                              else ''error'') (db s1) of
                                                        Inl x \<Rightarrow> (Inl x, s1)
                                                      | Inr d3 \<Rightarrow>
                                                          (Inr ack,
                                                           if transfer_success
                                                           then s1\<lparr>db := d3,
                                                             ROUTED_CALLS :=
                                                               insert k (ROUTED_CALLS s1)\<rparr>
                                                           else s1\<lparr>db := d3\<rparr>)))))))))
      | _ \<Rightarrow> (Inl AttributeError, s))"

text \<open>The branch for \<^verbatim>\<open>call.hangup\<close>.\<close>

definition on_hangup :: "env \<Rightarrow> json \<Rightarrow> state \<Rightarrow> (exn + response) \<times> state" where
  "on_hangup e ev s =
     (case ev of
        JObj kvs \<Rightarrow>
          (let ccid = dict_get kvs ''call_control_id'' JNull
           in if py_truthy ccid
              then
                (case log_event e ccid (JStr ''call.hangup'') ev (db s) of
                   Inl x \<Rightarrow> (Inl x, s)
                 | Inr d1 \<Rightarrow>
                     (case py_hash ccid of
                        None \<Rightarrow> (Inl TypeError, s\<lparr>db := d1\<rparr>)
                      | Some k \<Rightarrow>
                          (Inr (jsonify [(''status'', JStr ''received'')] 200),
                           s\<lparr>db := d1, ENDED_CALLS := insert k (ENDED_CALLS s)\<rparr>)))
              else (Inr (jsonify [(''status'', JStr ''received'')] 200), s))
      | _ \<Rightarrow> (Inl AttributeError, s))"

text \<open>Any other truthy event type is logged and acknowledged.\<close>

definition on_other :: "env \<Rightarrow> json \<Rightarrow> json \<Rightarrow> state \<Rightarrow> (exn + response) \<times> state" where
  "on_other e etype ev s =
     (let ack = jsonify [(''status'', JStr ''received''), (''event'', etype)] 200
      in if py_truthy etype
         then
           (case ev of
              JObj kvs \<Rightarrow>
                (let ccid = dict_get kvs ''call_control_id'' JNull
                 in if py_truthy ccid
                    then (case log_event e ccid etype ev (db s) of
                            Inl x \<Rightarrow> (Inl x, s)
                          | Inr d1 \<Rightarrow> (Inr ack, s\<lparr>db := d1\<rparr>))
                    else (Inr ack, s))
            | _ \<Rightarrow> (Inl AttributeError, s))
         else (Inr ack, s))"

text \<open>The body of the \<^verbatim>\<open>try\<close> statement.\<close>

definition try_body :: "config \<Rightarrow> env \<Rightarrow> json \<Rightarrow> json \<Rightarrow> state \<Rightarrow> (exn + response) \<times> state" where
  "try_body cfg e etype ev s =
     (if etype = JStr ''call.initiated'' then on_initiated e ev s
      else if etype = JStr ''call.gather.ended'' then on_gather_ended cfg e ev s
      else if etype = JStr ''call.hangup'' then on_hangup e ev s
      else on_other e etype ev s)"

text \<open>
  The four statements in front of the \<^verbatim>\<open>try\<close>: \<^verbatim>\<open>request.get_json(silent=True)\<close> gives
  \<^verbatim>\<open>None\<close> for a body that is not JSON; \<^verbatim>\<open>.get\<close> on a value that is not a dict raises
  \<^verbatim>\<open>AttributeError\<close>. The result is the pair \<^verbatim>\<open>(etype, ev)\<close>.
\<close>

definition read_request :: "json option \<Rightarrow> exn + (json \<times> json)" where
  "read_request req =
     (let payload = (case req of
                       None \<Rightarrow> JObj []
                     | Some j \<Rightarrow> if py_truthy j then j else JObj [])
      in case payload of
           JObj p \<Rightarrow>
             (case dict_get p ''data'' (JObj []) of
                JObj d \<Rightarrow> Inr (dict_get d ''event_type'' JNull, dict_get d ''payload'' (JObj []))
              | _ \<Rightarrow> Inl AttributeError)
         | _ \<Rightarrow> Inl AttributeError)"

text \<open>
  The handler. \<open>Inl x\<close> in the result is an exception that leaves \<^verbatim>\<open>webhook\<close> and
  reaches its caller; an exception inside the \<^verbatim>\<open>try\<close> is caught and answered with
  status \<^verbatim>\<open>error\<close>, whatever was done before it staying done.
\<close>

definition webhook :: "config \<Rightarrow> env \<Rightarrow> json option \<Rightarrow> state \<Rightarrow> (exn + response) \<times> state" where
  "webhook cfg e req s =
     (case read_request req of
        Inl x \<Rightarrow> (Inl x, s)
      | Inr (etype, ev) \<Rightarrow>
          (case try_body cfg e etype ev s of
             (Inl x, s') \<Rightarrow> (Inr (jsonify [(''status'', JStr ''error'')] 200), s')
           | (Inr r, s') \<Rightarrow> (Inr r, s')))"

text \<open>A run of the process: the deliveries one after another, each in its own world.\<close>

fun run :: "config \<Rightarrow> (env \<times> json option) list \<Rightarrow> state \<Rightarrow> state" where
  "run cfg [] s = s"
| "run cfg ((e, req) # ds) s = run cfg ds (snd (webhook cfg e req s))"

text \<open>The state of a process that has just started: both sets empty, nothing posted.\<close>

definition init_state :: "store \<Rightarrow> state" where
  "init_state d = \<lparr>ROUTED_CALLS = {}, ENDED_CALLS = {}, db = d, posts = []\<rparr>"


section \<open>The 24-hour KPIs (\<^verbatim>\<open>analytics_db.py\<close>, \<^verbatim>\<open>kpis_24h\<close>)\<close>

subsection \<open>Floating point\<close>

text \<open>
  A Python float is an IEEE 754 double. The model keeps a finite double as the rational
  number it stands for. \<open>fl_div a b\<close> is the double nearest to the quotient of two
  integers, \<open>a\<close> not negative and \<open>b\<close> positive, a tie going to the even
  significand: with \<open>e\<close> the binary exponent of the quotient, the doubles around it
  are the multiples of \<open>2 ^ (e - 52)\<close> (of \<open>2 ^ - 1074\<close> in the subnormal range).
  This is the result of the true division \<^verbatim>\<open>a / b\<close> of two ints, which Python rounds
  correctly, and of reading a decimal, which is the quotient of an integer and a power of
  ten. The counts divided below are SQLite integers, below \<open>2 ^ 63\<close>, and their
  quotients are far from the largest double.
\<close>

function bitlen :: "int \<Rightarrow> int" where
  "bitlen n = (if n \<le> 0 then 0 else 1 + bitlen (n div 2))"
  by pat_completeness auto
termination
  by (relation "measure nat") auto

declare bitlen.simps [simp del]

definition pow2 :: "int \<Rightarrow> rat" where
  "pow2 k = (if 0 \<le> k then 2 ^ nat k else 1 / 2 ^ nat (- k))"

definition round_half_even :: "rat \<Rightarrow> int" where
  "round_half_even x =
     (let f = \<lfloor>x\<rfloor>; r = x - of_int f
      in if r < 1 / 2 then f else if 1 / 2 < r then f + 1 else if even f then f else f + 1)"

definition fl_div :: "int \<Rightarrow> int \<Rightarrow> rat" where
  "fl_div a b =
     (if a = 0 then 0
      else
        (let q = of_int a / of_int b;
             d = bitlen a - bitlen b;
             e = (if pow2 d \<le> q then d else d - 1);
             u = pow2 (max (e - 52) (- 1074))
         in of_int (round_half_even (q / u)) * u))"

text \<open>\<^verbatim>\<open>a / b\<close> for two counts, the divisor not zero.\<close>

definition py_truediv :: "nat \<Rightarrow> nat \<Rightarrow> rat" where
  "py_truediv a b = fl_div (int a) (int b)"

text \<open>
  \<^verbatim>\<open>round(x, 3)\<close> for a float: the exact value of \<open>x\<close> is rounded to the nearest
  decimal with three digits after the point, a tie going to the even last digit, and the
  decimal is read back as a double.
\<close>

definition py_round3 :: "rat \<Rightarrow> rat" where
  "py_round3 x =
     (let k = round_half_even (x * 1000)
      in if 0 \<le> k then fl_div k 1000 else - fl_div (- k) 1000)"

text \<open>The dict \<^verbatim>\<open>kpis_24h\<close> returns; the float \<^verbatim>\<open>0.0\<close> is the rational 0.\<close>

record kpis =
  kpi_window :: string
  kpi_department :: string
  inbound_volume :: nat
  selection_rate :: rat
  transfer_success :: rat

subsection \<open>The queries\<close>

text \<open>
  The world of one call of \<^verbatim>\<open>kpis_24h\<close>: whether \<^verbatim>\<open>init_db\<close> succeeds if attempted,
  and whether the queries go through (\<open>Some t\<close>, \<open>t\<close> being
  \<^verbatim>\<open>(datetime.utcnow() - timedelta(hours=24)).isoformat()\<close>) or something inside the
  \<^verbatim>\<open>try\<close> raises (\<open>None\<close>).
\<close>

record kpi_env =
  kpi_init_db_ok :: bool
  kpi_sql :: "string option"

text \<open>
  The rows of \<^verbatim>\<open>calls\<close> with \<^verbatim>\<open>created_at >= cutoff\<close>; sqlite compares the two texts
  byte by byte, which is the lexicographic order of strings.
\<close>

definition calls_since :: "string \<Rightarrow> tables \<Rightarrow> call_row list" where
  "calls_since cutoff t = filter (\<lambda>c. cutoff \<le> call_created_at c) (calls t)"

text \<open>\<^verbatim>\<open>COUNT(DISTINCT x)\<close> over the values \<open>xs\<close> of the rows where \<open>x\<close> is not NULL.\<close>

definition count_distinct :: "string list \<Rightarrow> nat" where
  "count_distinct xs = length (remdups xs)"

text \<open>
  The queries without a department: the calls of the window left-joined with their
  selections; the transfers joined with the calls of the window.
\<close>

definition selections_all :: "string \<Rightarrow> tables \<Rightarrow> string list" where
  "selections_all cutoff t =
     concat (map (\<lambda>c. map ivr_call_id
                        (filter (\<lambda>i. call_id c = ivr_call_id i) (ivr_interactions t)))
                 (calls_since cutoff t))"

definition transfers_all :: "string \<Rightarrow> tables \<Rightarrow> transfer_row list" where
  "transfers_all cutoff t =
     concat (map (\<lambda>tr. map (\<lambda>c. tr)
                         (filter (\<lambda>c. tr_call_id tr = call_id c) (calls_since cutoff t)))
                 (transfers t))"

text \<open>
  The queries with a department: \<^verbatim>\<open>WHERE ... AND ivr.department = ?\<close> keeps the rows
  of the join whose selection is for the department, so a call counts when it has such a
  selection, and a transfer counts once for every such selection of its call.
\<close>

definition selections_dept :: "string \<Rightarrow> string \<Rightarrow> tables \<Rightarrow> string list" where
  "selections_dept cutoff d t =
     concat (map (\<lambda>c. map ivr_call_id
                        (filter (\<lambda>i. call_id c = ivr_call_id i \<and> ivr_department i = d)
                                (ivr_interactions t)))
                 (calls_since cutoff t))"

definition transfers_dept :: "string \<Rightarrow> string \<Rightarrow> tables \<Rightarrow> transfer_row list" where
  "transfers_dept cutoff d t =
     concat (map (\<lambda>tr.
               concat (map (\<lambda>c. map (\<lambda>i. tr)
                              (filter (\<lambda>i. call_id c = ivr_call_id i \<and> ivr_department i = d)
                                      (ivr_interactions t)))
                           (filter (\<lambda>c. tr_call_id tr = call_id c) (calls_since cutoff t))))
             (transfers t))"

definition successful :: "transfer_row list \<Rightarrow> nat" where
  "successful rows = length (filter (\<lambda>tr. tr_status tr = ''success'') rows)"

text \<open>
  \<^verbatim>\<open>kpis_24h\<close>. \<^verbatim>\<open>ensure_db()\<close> stands outside the \<^verbatim>\<open>try\<close>; an exception inside it
  gives the dict of zeros. \<^verbatim>\<open>if department\<close> takes an empty string for no department.
\<close>

definition kpis_24h ::
  "kpi_env \<Rightarrow> string option \<Rightarrow> store \<Rightarrow> (exn + kpis) \<times> store" where
  "kpis_24h ke department st =
     (case ensure_db (kpi_init_db_ok ke) st of
        Inl x \<Rightarrow> (Inl x, st)
      | Inr t \<Rightarrow>
          (Inr
            (let dname = (case department of None \<Rightarrow> ''all''
                          | Some d \<Rightarrow> if d \<noteq> [] then d else ''all'');
                 filtered = (case department of None \<Rightarrow> None
                             | Some d \<Rightarrow> if d \<noteq> [] then Some d else None)
             in case kpi_sql ke of
                  None \<Rightarrow>
                    \<lparr>kpi_window = ''24h'', kpi_department = dname, inbound_volume = 0,
                     selection_rate = 0, transfer_success = 0\<rparr>
                | Some now \<Rightarrow>
                    (let cutoff = now @ ''Z'';
                         volume = (case filtered of
                                     None \<Rightarrow> count_distinct (map call_id (calls_since cutoff t))
                                   | Some d \<Rightarrow> count_distinct (selections_dept cutoff d t));
                         with_selection =
                                  (case filtered of
                                     None \<Rightarrow> count_distinct (selections_all cutoff t)
                                   | Some d \<Rightarrow> count_distinct (selections_dept cutoff d t));
                         total_calls = (case filtered of
                                     None \<Rightarrow> count_distinct (map call_id (calls_since cutoff t))
                                   | Some d \<Rightarrow> count_distinct (selections_dept cutoff d t));
                         joined = (case filtered of
                                     None \<Rightarrow> transfers_all cutoff t
                                   | Some d \<Rightarrow> transfers_dept cutoff d t);
                         rate = (if total_calls > 0 then py_truediv with_selection total_calls
                                 else 0);
                         success = (if length joined > 0
                                    then py_truediv (successful joined) (length joined)
                                    else 0)
                     in \<lparr>kpi_window = ''24h'', kpi_department = dname,
                         inbound_volume = volume,
                         selection_rate = py_round3 rate,
                         transfer_success = py_round3 success\<rparr>)),
           Some t))"

section \<open>The analytics endpoints (\<^verbatim>\<open>analytics_api.py\<close>)\<close>

text \<open>
  \<^verbatim>\<open>int(s)\<close> for a string: surrounding whitespace is dropped, one sign may lead, and the
  rest is decimal digits, single underscores allowed between two digits; more than 4300
  digits are refused. \<open>None\<close> stands for \<^verbatim>\<open>ValueError\<close>. The whitespace
  \<^verbatim>\<open>int\<close> drops is not that of \<^verbatim>\<open>str.strip\<close>: it is the ASCII whitespace (tab to
  carriage return, and the space) and the spaces above the ASCII range (code points 133
  and 160 below 256), which \<^verbatim>\<open>int\<close> first turns into the ASCII space; the separators
  28 to 31 stay and make the string no number.
\<close>

definition int_isspace :: "char \<Rightarrow> bool" where
  "int_isspace c =
     (let n = (of_char c :: nat)
      in (9 \<le> n \<and> n \<le> 13) \<or> n = 32 \<or> n = 133 \<or> n = 160)"

definition int_strip :: "string \<Rightarrow> string" where
  "int_strip s = rev (dropWhile int_isspace (rev (dropWhile int_isspace s)))"

definition is_digit :: "char \<Rightarrow> bool" where
  "is_digit c = (48 \<le> (of_char c :: nat) \<and> (of_char c :: nat) \<le> 57)"

fun int_digits :: "nat \<Rightarrow> bool \<Rightarrow> string \<Rightarrow> nat option" where
  "int_digits acc after_digit [] = (if after_digit then Some acc else None)"
| "int_digits acc after_digit (c # cs) =
     (if is_digit c then int_digits (acc * 10 + (of_char c - 48)) True cs
      else if c = CHR ''_'' \<and> after_digit then int_digits acc False cs
      else None)"

definition int_body :: "string \<Rightarrow> nat option" where
  "int_body s = (if length (filter is_digit s) > 4300 then None else int_digits 0 False s)"

definition py_int :: "string \<Rightarrow> int option" where
  "py_int s =
     (case int_strip s of
        [] \<Rightarrow> None
      | c # cs \<Rightarrow>
          if c = CHR ''-'' then map_option (\<lambda>n. - int n) (int_body cs)
          else if c = CHR ''+'' then map_option int (int_body cs)
          else map_option int (int_body (c # cs)))"

text \<open>The query string: \<^verbatim>\<open>request.args.get\<close> is \<open>None\<close> for a parameter not given.\<close>

record query_args =
  arg_department :: "string option"
  arg_days :: "string option"
  arg_limit :: "string option"

text \<open>A response body is an error message or the result of the query.\<close>

datatype 'a api_body = ErrorBody string | ResultBody 'a

record 'a api_response =
  api_status :: nat
  api_body :: "'a api_body"

definition department_invalid :: "string option \<Rightarrow> bool" where
  "department_invalid department =
     (case department of None \<Rightarrow> False | Some d \<Rightarrow> d \<noteq> [] \<and> d \<notin> valid_departments)"

definition department_or_all :: "string option \<Rightarrow> string" where
  "department_or_all department =
     (case department of None \<Rightarrow> ''all'' | Some d \<Rightarrow> if d \<noteq> [] then d else ''all'')"

definition invalid_department_msg :: string where
  "invalid_department_msg = ''Invalid department. Must be: sales, support, or porting''"

text \<open>
  The three endpoints. The reader each one calls is a parameter (\<^verbatim>\<open>get_kpis\<close> reads
  through \<^verbatim>\<open>kpis_24h\<close> above); a reader may raise, \<^verbatim>\<open>ensure_db()\<close> standing outside
  its \<^verbatim>\<open>try\<close>.
\<close>

definition get_kpis ::
  "(string option \<Rightarrow> exn + 'k) \<Rightarrow> query_args \<Rightarrow> 'k api_response" where
  "get_kpis reader args =
     (let department = arg_department args
      in if department_invalid department
         then \<lparr>api_status = 400, api_body = ErrorBody invalid_department_msg\<rparr>
         else (case reader department of
                 Inl x \<Rightarrow> \<lparr>api_status = 500, api_body = ErrorBody ''Internal server error''\<rparr>
               | Inr k \<Rightarrow> \<lparr>api_status = 200, api_body = ResultBody k\<rparr>))"

definition get_trend ::
  "(int \<Rightarrow> string option \<Rightarrow> exn + 't) \<Rightarrow> query_args \<Rightarrow> (int \<times> string \<times> 't) api_response" where
  "get_trend reader args =
     (case (case arg_days args of None \<Rightarrow> Some 7 | Some ds \<Rightarrow> py_int ds) of
        None \<Rightarrow>
          \<lparr>api_status = 400,
           api_body = ErrorBody ''Invalid 'days' parameter. Must be a number''\<rparr>
      | Some days \<Rightarrow>
          (let department = arg_department args
           in if days < 1 \<or> days > 365
              then \<lparr>api_status = 400, api_body = ErrorBody ''Days must be between 1 and 365''\<rparr>
              else if department_invalid department
              then \<lparr>api_status = 400, api_body = ErrorBody invalid_department_msg\<rparr>
              else (case reader days department of
                      Inl ValueError \<Rightarrow>
                        \<lparr>api_status = 400,
                         api_body = ErrorBody ''Invalid 'days' parameter. Must be a number''\<rparr>
                    | Inl x \<Rightarrow>
                        \<lparr>api_status = 500, api_body = ErrorBody ''Internal server error''\<rparr>
                    | Inr trend \<Rightarrow>
                        \<lparr>api_status = 200,
                         api_body = ResultBody (days, department_or_all department, trend)\<rparr>)))"

definition get_recent_calls ::
  "(int \<Rightarrow> string option \<Rightarrow> exn + 'c) \<Rightarrow> query_args \<Rightarrow> (int \<times> string \<times> 'c) api_response" where
  "get_recent_calls reader args =
     (case (case arg_limit args of None \<Rightarrow> Some 20 | Some ls \<Rightarrow> py_int ls) of
        None \<Rightarrow>
          \<lparr>api_status = 400,
           api_body = ErrorBody ''Invalid 'limit' parameter. Must be a number''\<rparr>
      | Some limit \<Rightarrow>
          (let department = arg_department args
           in if limit < 1 \<or> limit > 1000
              then \<lparr>api_status = 400, api_body = ErrorBody ''Limit must be between 1 and 1000''\<rparr>
              else if department_invalid department
              then \<lparr>api_status = 400, api_body = ErrorBody invalid_department_msg\<rparr>
              else (case reader limit department of
                      Inl ValueError \<Rightarrow>
                        \<lparr>api_status = 400,
                         api_body = ErrorBody ''Invalid 'limit' parameter. Must be a number''\<rparr>
                    | Inl x \<Rightarrow>
                        \<lparr>api_status = 500, api_body = ErrorBody ''Internal server error''\<rparr>
                    | Inr rows \<Rightarrow>
                        \<lparr>api_status = 200,
                         api_body = ResultBody (limit, department_or_all department, rows)\<rparr>)))"

text \<open>A request is rejected: status 400, an error message for a body, no result.\<close>

definition rejected :: "'a api_response \<Rightarrow> bool" where
  "rejected r = (api_status r = 400 \<and> (case api_body r of ErrorBody m \<Rightarrow> True
                                       | ResultBody x \<Rightarrow> False))"

section \<open>The extraction policy as an ordered list of locations\<close>

text \<open>
  The locations in the words of the specification: the top-level \<^verbatim>\<open>digit\<close>, the
  top-level \<^verbatim>\<open>digits\<close>, then \<^verbatim>\<open>digits\<close> and \<^verbatim>\<open>digit\<close> of a dict nested under
  \<^verbatim>\<open>result\<close> or \<^verbatim>\<open>dtmf\<close>.
\<close>

definition stated_locations :: "(string \<times> json) list \<Rightarrow> json list" where
  "stated_locations p =
     [dict_get p ''digit'' JNull, dict_get p ''digits'' JNull] @
     concat (map (\<lambda>v. case v of
                         JObj r \<Rightarrow> [dict_get r ''digits'' JNull, dict_get r ''digit'' JNull]
                       | _ \<Rightarrow> [])
                 [dict_get p ''result'' JNull, dict_get p ''dtmf'' JNull])"

text \<open>
  The locations with one nested object: what stands under \<^verbatim>\<open>result\<close> when that is not
  empty, and what stands under \<^verbatim>\<open>dtmf\<close> otherwise. A value is empty when Python takes
  it for false (\<^verbatim>\<open>None\<close>, \<^verbatim>\<open>""\<close>, \<^verbatim>\<open>0\<close>, \<^verbatim>\<open>False\<close>, an empty list or dict).
\<close>

definition nested_object :: "(string \<times> json) list \<Rightarrow> json" where
  "nested_object p =
     (case find py_truthy [dict_get p ''result'' JNull, dict_get p ''dtmf'' JNull] of
        Some v \<Rightarrow> v
      | None \<Rightarrow> JObj [])"

definition digit_locations :: "(string \<times> json) list \<Rightarrow> json list" where
  "digit_locations p =
     [dict_get p ''digit'' JNull, dict_get p ''digits'' JNull] @
     (case nested_object p of
        JObj r \<Rightarrow> [dict_get r ''digits'' JNull, dict_get r ''digit'' JNull]
      | _ \<Rightarrow> [])"

definition first_nonempty_trimmed :: "json list \<Rightarrow> string" where
  "first_nonempty_trimmed vs =
     (case find py_truthy vs of Some v \<Rightarrow> py_strip (py_str v) | None \<Rightarrow> [])"

section \<open>Example deliveries\<close>

definition ex_cfg :: config where
  "ex_cfg = \<lparr>sales_sip_uri = ''sip:agent1@sip.telnyx.com'',
             support_sip_uri = ''sip:agent2@sip.telnyx.com'',
             porting_sip_uri = ''sip:agent3@sip.telnyx.com''\<rparr>"

text \<open>A world in which the store and the provider both work.\<close>

definition ex_env :: env where
  "ex_env = \<lparr>init_db_ok = True,
             save_call_sql = Some ''2026-01-01T10:00:00.000100'',
             log_event_sql = Some ''2026-01-01T10:00:00.000200'',
             log_ivr_sql = Some ''2026-01-01T10:00:00.000300'',
             log_transfer_sql = Some ''2026-01-01T10:00:00.000400'',
             answer_http = Some 200, menu_http = Some 200, transfer_http = Some 200\<rparr>"

text \<open>The body \<^verbatim>\<open>{"data": {"event_type": ty, "payload": {...}}}\<close>.\<close>

definition ex_delivery :: "string \<Rightarrow> (string \<times> json) list \<Rightarrow> json option" where
  "ex_delivery ty kvs =
     Some (JObj [(''data'', JObj [(''event_type'', JStr ty), (''payload'', JObj kvs)])])"

definition ex_gather :: "string \<Rightarrow> (string \<times> json) list" where
  "ex_gather d = [(''call_control_id'', JStr ''abc''), (''digit'', JStr d)]"

definition ex_initiated :: "(string \<times> json) list" where
  "ex_initiated =
     [(''call_control_id'', JStr ''abc''), (''from'', JStr ''+1555''), (''to'', JStr ''+1800'')]"

definition ex_hangup :: "(string \<times> json) list" where
  "ex_hangup = [(''call_control_id'', JStr ''abc'')]"

text \<open>
  Three calls: \<^verbatim>\<open>A\<close> and \<^verbatim>\<open>B\<close> choose sales, the first transfer of \<^verbatim>\<open>A\<close> fails
  and the caller's digit is delivered again; \<^verbatim>\<open>C\<close> is answered and chooses nothing.
\<close>

definition ex_call :: "string \<Rightarrow> string \<Rightarrow> (string \<times> json) list" where
  "ex_call c d =
     [(''call_control_id'', JStr c), (''digit'', JStr d),
      (''from'', JStr ''+1555''), (''to'', JStr ''+1800'')]"

definition ex_three_calls :: state where
  "ex_three_calls =
     run ex_cfg
       [(ex_env, ex_delivery ''call.initiated'' (ex_call ''A'' [])),
        (ex_env\<lparr>transfer_http := Some 500\<rparr>,
         ex_delivery ''call.gather.ended'' (ex_call ''A'' ''1'')),
        (ex_env, ex_delivery ''call.gather.ended'' (ex_call ''A'' ''1'')),
        (ex_env, ex_delivery ''call.initiated'' (ex_call ''B'' [])),
        (ex_env, ex_delivery ''call.gather.ended'' (ex_call ''B'' ''1'')),
        (ex_env, ex_delivery ''call.initiated'' (ex_call ''C'' []))]
       (init_state None)"

text \<open>
  The KPIs are asked for two hours after these calls: the cutoff is 24 hours before that.
\<close>

definition ex_kpi_env :: kpi_env where
  "ex_kpi_env = \<lparr>kpi_init_db_ok = True, kpi_sql = Some ''2025-12-31T12:00:00.000500''\<rparr>"

text \<open>
  A \<^verbatim>\<open>call.gather.ended\<close> delivery whose payload is \<^verbatim>\<open>null\<close>:
  \<^verbatim>\<open>{"data": {"event_type": "call.gather.ended", "payload": null}}\<close>.
\<close>

definition ex_gather_null :: "json option" where
  "ex_gather_null =
     Some (JObj [(''data'', JObj [(''event_type'', JStr ''call.gather.ended''),
                                  (''payload'', JNull)])])"

section \<open>Notions used in the statements\<close>

text \<open>
  The Call rows \<^verbatim>\<open>save_call_if_new\<close> adds for the call id \<open>c\<close> to the rows already
  there: none when the id is among them or the insert fails, one otherwise.
\<close>

definition new_call_rows ::
  "env \<Rightarrow> string \<Rightarrow> json \<Rightarrow> json \<Rightarrow> call_row list \<Rightarrow> call_row list" where
  "new_call_rows e c from_number to_number rows =
     (if c \<in> set (map call_id rows) then []
      else (case (save_call_sql e, sql_text from_number, sql_text to_number) of
              (Some now, Some f, Some to) \<Rightarrow>
                [\<lparr>call_id = c, call_from = f, call_to = to, call_created_at = now @ ''Z''\<rparr>]
            | _ \<Rightarrow> []))"

text \<open>
  The handler has acknowledged: it returned to its caller, with HTTP 200 and a JSON object
  that has a \<^verbatim>\<open>status\<close> field.
\<close>

definition acknowledged :: "exn + response \<Rightarrow> bool" where
  "acknowledged r =
     (case r of
        Inl x \<Rightarrow> False
      | Inr a \<Rightarrow> status_code a = 200 \<and> map_of (json_body a) ''status'' \<noteq> None)"

text \<open>No two Call records of the store have the same call id.\<close>

definition call_ids_distinct :: "store \<Rightarrow> bool" where
  "call_ids_distinct d = distinct (map call_id (stored_calls d))"

section \<open>Basic facts\<close>

lemma response_ok_iff: "response_ok r \<longleftrightarrow> r = Some 200"
  by (auto simp: response_ok_def split: option.splits)

lemma new_posts_same [simp]: "new_posts s s = []"
  by (simp add: new_posts_def)

lemma new_posts_db [simp]: "new_posts s (s\<lparr>db := d\<rparr>) = []"
  by (simp add: new_posts_def)

lemma new_posts_append [simp]:
  "new_posts s (s\<lparr>db := d, posts := posts s @ xs, ROUTED_CALLS := R\<rparr>) = xs"
  by (simp add: new_posts_def)

lemma str_or_empty: "(if d \<noteq> [] then d else []) = (d :: string)"
  by simp

lemma py_strip_Nil: "py_strip [] = []"
  by (simp add: py_strip_def)

lemma py_truediv_zero: "py_truediv 0 b = 0"
  by (simp add: py_truediv_def fl_div_def)

lemma py_round3_zero: "py_round3 0 = 0"
  by (simp add: py_round3_def round_half_even_def fl_div_def)

lemma fl_div_same:
  assumes "0 < a"
  shows "fl_div a a = 1"
proof -
  have q: "(of_int a :: rat) / of_int a = 1" using assms by simp
  have p0: "pow2 0 = 1" by (simp add: pow2_def)
  have u: "pow2 (- 52) = 1 / 4503599627370496" by (simp add: pow2_def)
  have r: "round_half_even 4503599627370496 = 4503599627370496"
    by (simp add: round_half_even_def)
  show ?thesis
    using assms by (simp add: fl_div_def q p0 u r)
qed

lemma py_round3_of_one: "py_round3 1 = 1"
proof -
  have "round_half_even 1000 = 1000" by (simp add: round_half_even_def)
  then show ?thesis by (simp add: py_round3_def fl_div_same)
qed

lemma digit_table:
  "map_of DIGIT_TO_DEPARTMENT d =
     (if d = ''1'' then Some ''sales'' else if d = ''2'' then Some ''support''
      else if d = ''3'' then Some ''porting'' else None)"
  by (simp add: DIGIT_TO_DEPARTMENT_def)

lemma digit_mapped:
  assumes "map_of DIGIT_TO_DEPARTMENT d = Some dp"
  shows "dp \<noteq> [] \<and> dp \<in> valid_departments \<and>
         (\<exists>u. map_of (DEPARTMENT_URIS cfg) dp = Some u)"
  using assms
  by (auto simp: digit_table DEPARTMENT_URIS_def valid_departments_def split: if_splits)

lemma read_ex_delivery:
  "read_request (ex_delivery ty kvs) = Inr (JStr ty, JObj kvs)"
  by (simp add: read_request_def ex_delivery_def dict_get_def)

subsection \<open>The store functions on a store that is ready\<close>

lemma log_ivr_Some: "\<exists>t'. log_ivr_selection e c d dp (Some t) = Inr (Some t')"
  by (simp add: log_ivr_selection_def ensure_db_def)

lemma log_transfer_Some: "\<exists>t'. log_transfer e c u st (Some t) = Inr (Some t')"
  by (simp add: log_transfer_def ensure_db_def)

lemma store_ready_log_event:
  assumes "st \<noteq> None \<or> init_db_ok e"
  shows "\<exists>t'. log_event e c ty p st = Inr (Some t')"
  using assms by (cases st) (auto simp: log_event_def ensure_db_def)

lemma store_not_ready_log_event:
  assumes "\<not> (st \<noteq> None \<or> init_db_ok e)"
  shows "log_event e c ty p st = Inl StoreInitError"
  using assms by (simp add: log_event_def ensure_db_def)

subsection \<open>The gather branch\<close>

lemma webhook_gather:
  assumes "read_request req = Inr (JStr ''call.gather.ended'', ev)"
  shows "webhook cfg e req s =
     (case on_gather_ended cfg e ev s of
        (Inl x, s') \<Rightarrow> (Inr (jsonify [(''status'', JStr ''error'')] 200), s')
      | (Inr r, s') \<Rightarrow> (Inr r, s'))"
  using assms by (simp add: webhook_def try_body_def)

lemma gather_mapped_ready:
  assumes "py_truthy (dict_get kvs ''call_control_id'' JNull)"
    and "py_hash (dict_get kvs ''call_control_id'' JNull) = Some k"
    and "k \<notin> ROUTED_CALLS s" "k \<notin> ENDED_CALLS s"
    and "map_of DIGIT_TO_DEPARTMENT (extract_digits kvs) = Some dp"
    and "map_of (DEPARTMENT_URIS cfg) dp = Some u"
    and "db s \<noteq> None \<or> init_db_ok e"
  shows "\<exists>t'. on_gather_ended cfg e (JObj kvs) s =
     (Inr (jsonify [(''status'', JStr ''gather_processed''),
                    (''digit'', JStr (extract_digits kvs))] 200),
      s\<lparr>db := Some t',
        posts := posts s @ [transfer_request (dict_get kvs ''call_control_id'' JNull) u],
        ROUTED_CALLS := (if response_ok (transfer_http e) then insert k (ROUTED_CALLS s)
                         else ROUTED_CALLS s)\<rparr>)"
proof -
  let ?c = "dict_get kvs ''call_control_id'' JNull"
  let ?st = "if response_ok (transfer_http e) then ''success'' else ''error''"
  from digit_mapped[OF assms(5), of cfg] have dp: "dp \<noteq> []" by simp
  obtain t1 where t1:
    "log_event e ?c (JStr ''call.gather.ended'') (JObj kvs) (db s) = Inr (Some t1)"
    using store_ready_log_event[OF assms(7)] by blast
  obtain t2 where t2:
    "log_ivr_selection e ?c (extract_digits kvs) dp (Some t1) = Inr (Some t2)"
    using log_ivr_Some by blast
  obtain t3 where t3: "log_transfer e ?c u ?st (Some t2) = Inr (Some t3)"
    using log_transfer_Some by blast
  have "on_gather_ended cfg e (JObj kvs) s =
     (Inr (jsonify [(''status'', JStr ''gather_processed''),
                    (''digit'', JStr (extract_digits kvs))] 200),
      s\<lparr>db := Some t3, posts := posts s @ [transfer_request ?c u],
        ROUTED_CALLS := (if response_ok (transfer_http e) then insert k (ROUTED_CALLS s)
                         else ROUTED_CALLS s)\<rparr>)"
    using assms(1-6) dp t1 t2 t3
    by (simp add: on_gather_ended_def Let_def str_or_empty transfer_call_def)
  then show ?thesis by blast
qed

lemma gather_not_ready:
  assumes "py_truthy (dict_get kvs ''call_control_id'' JNull)"
    and "py_hash (dict_get kvs ''call_control_id'' JNull) = Some k"
    and "k \<notin> ROUTED_CALLS s" "k \<notin> ENDED_CALLS s"
    and "\<not> (db s \<noteq> None \<or> init_db_ok e)"
  shows "on_gather_ended cfg e (JObj kvs) s = (Inl StoreInitError, s)"
  using assms(1-4) store_not_ready_log_event[OF assms(5)]
  by (simp add: on_gather_ended_def Let_def)

section \<open>Properties\<close>

text \<open>
  C1, as the claim states it, fails: a \<^verbatim>\<open>call.gather.ended\<close> delivery whose payload
  is \<^verbatim>\<open>null\<close> has no call id, and the handler's \<^verbatim>\<open>ev.get\<close> raises inside the
  \<^verbatim>\<open>try\<close>: the acknowledgement is \<^verbatim>\<open>error\<close>, not \<^verbatim>\<open>gather_ignored\<close>.
\<close>

theorem gather_null_payload_counterexample:
  "read_request ex_gather_null = Inr (JStr ''call.gather.ended'', JNull) \<and>
   webhook ex_cfg ex_env ex_gather_null (init_state None) =
     (Inr (jsonify [(''status'', JStr ''error'')] 200), init_state None)"
  by (simp add: ex_gather_null_def webhook_def read_request_def dict_get_def try_body_def
      on_gather_ended_def)

text \<open>
  C1, amended. Take a \<^verbatim>\<open>call.gather.ended\<close> delivery whose payload is a JSON object
  with a missing call id (absent or falsy) or with a call id that is already a member of
  the routed set or of the ended set, or whose payload is not a JSON object at all (and so
  holds no call id). The whole process state after it is what it was: nothing is posted to
  the provider (no transfer attempt), no row is written to any table (no IvrSelection, no
  Transfer), and both sets are unchanged. The acknowledgement is HTTP 200 with status
  \<^verbatim>\<open>gather_ignored\<close> when the payload is an object, and with status \<^verbatim>\<open>error\<close> when it
  is not.
\<close>

theorem gather_guard_leaves_state:
  assumes "read_request req = Inr (JStr ''call.gather.ended'', ev)"
    and "case ev of
           JObj kvs \<Rightarrow>
             \<not> py_truthy (dict_get kvs ''call_control_id'' JNull) \<or>
             (\<exists>k. py_hash (dict_get kvs ''call_control_id'' JNull) = Some k \<and>
                  (k \<in> ROUTED_CALLS s \<or> k \<in> ENDED_CALLS s))
         | _ \<Rightarrow> True"
  shows "webhook cfg e req s =
     (Inr (jsonify [(''status'',
                     JStr (case ev of JObj kvs \<Rightarrow> ''gather_ignored'' | _ \<Rightarrow> ''error''))] 200),
      s)"
  using assms
  by (cases ev) (auto simp: webhook_def try_body_def on_gather_ended_def Let_def)

theorem gather_guard_leaves_state_witness:
  "webhook ex_cfg ex_env (ex_delivery ''call.gather.ended'' (ex_gather ''2''))
     ((init_state None)\<lparr>ROUTED_CALLS := {KStr ''abc''}\<rparr>) =
   (Inr (jsonify [(''status'', JStr ''gather_ignored'')] 200),
    (init_state None)\<lparr>ROUTED_CALLS := {KStr ''abc''}\<rparr>) \<and>
   webhook ex_cfg ex_env (ex_delivery ''call.gather.ended'' []) (init_state None) =
   (Inr (jsonify [(''status'', JStr ''gather_ignored'')] 200), init_state None) \<and>
   webhook ex_cfg ex_env ex_gather_null
     ((init_state None)\<lparr>ROUTED_CALLS := {KStr ''abc''}\<rparr>) =
   (Inr (jsonify [(''status'', JStr ''error'')] 200),
    (init_state None)\<lparr>ROUTED_CALLS := {KStr ''abc''}\<rparr>)"
proof -
  let ?s = "(init_state None)\<lparr>ROUTED_CALLS := {KStr ''abc''}\<rparr>"
  have h: "case JObj (ex_gather ''2'') of
           JObj kvs \<Rightarrow>
             \<not> py_truthy (dict_get kvs ''call_control_id'' JNull) \<or>
             (\<exists>k. py_hash (dict_get kvs ''call_control_id'' JNull) = Some k \<and>
                  (k \<in> ROUTED_CALLS ?s \<or> k \<in> ENDED_CALLS ?s))
         | _ \<Rightarrow> True"
    by (simp add: ex_gather_def dict_get_def py_hash_def)
  have m: "case JObj [] of
           JObj kvs \<Rightarrow>
             \<not> py_truthy (dict_get kvs ''call_control_id'' JNull) \<or>
             (\<exists>k. py_hash (dict_get kvs ''call_control_id'' JNull) = Some k \<and>
                  (k \<in> ROUTED_CALLS (init_state None) \<or> k \<in> ENDED_CALLS (init_state None)))
         | _ \<Rightarrow> True"
    by (simp add: dict_get_def)
  have r: "read_request ex_gather_null = Inr (JStr ''call.gather.ended'', JNull)"
    by (simp add: ex_gather_null_def read_request_def dict_get_def)
  have n: "case JNull of
           JObj kvs \<Rightarrow>
             \<not> py_truthy (dict_get kvs ''call_control_id'' JNull) \<or>
             (\<exists>k. py_hash (dict_get kvs ''call_control_id'' JNull) = Some k \<and>
                  (k \<in> ROUTED_CALLS ?s \<or> k \<in> ENDED_CALLS ?s))
         | _ \<Rightarrow> True"
    by simp
  from gather_guard_leaves_state[OF read_ex_delivery h, of ex_cfg ex_env]
    gather_guard_leaves_state[OF read_ex_delivery m, of ex_cfg ex_env]
    gather_guard_leaves_state[OF r n, of ex_cfg ex_env]
  show ?thesis by simp
qed

text \<open>
  C2. Take a \<^verbatim>\<open>call.gather.ended\<close> delivery that passes the idempotence guard (its call
  id is truthy, hashable and in neither set), whose digit is in the table, and during which
  the transfer command is posted. If the transfer call returns success, the call id is in
  the routed set afterwards. If it returns failure, the call id is not in the routed set
  afterwards, and the same delivery arriving again next is not ignored but processed again,
  in whatever world it arrives: it is acknowledged \<^verbatim>\<open>gather_processed\<close> and the transfer
  command is posted once more.
\<close>

theorem transfer_outcome_decides_routing:
  assumes req: "read_request req = Inr (JStr ''call.gather.ended'', JObj kvs)"
    and ccid: "ccid = dict_get kvs ''call_control_id'' JNull"
    and guard: "py_truthy ccid" "py_hash ccid = Some k"
      "k \<notin> ROUTED_CALLS s" "k \<notin> ENDED_CALLS s"
    and digit: "map_of DIGIT_TO_DEPARTMENT (extract_digits kvs) = Some dept"
    and posted: "\<exists>u. transfer_request ccid u \<in> set (new_posts s (snd (webhook cfg e req s)))"
  shows "(response_ok (transfer_http e) \<longrightarrow> k \<in> ROUTED_CALLS (snd (webhook cfg e req s))) \<and>
         (\<not> response_ok (transfer_http e) \<longrightarrow>
            k \<notin> ROUTED_CALLS (snd (webhook cfg e req s)) \<and>
            (\<forall>e2. fst (webhook cfg e2 req (snd (webhook cfg e req s))) =
                     Inr (jsonify [(''status'', JStr ''gather_processed''),
                                   (''digit'', JStr (extract_digits kvs))] 200) \<and>
                  (\<exists>u. new_posts (snd (webhook cfg e req s))
                          (snd (webhook cfg e2 req (snd (webhook cfg e req s)))) =
                        [transfer_request ccid u])))"
proof -
  obtain u where u: "map_of (DEPARTMENT_URIS cfg) dept = Some u"
    using digit_mapped[OF digit] by blast
  have ready: "db s \<noteq> None \<or> init_db_ok e"
  proof (rule ccontr)
    assume "\<not> ?thesis"
    from gather_not_ready[OF guard(1,2,3,4)[unfolded ccid] this]
    have "snd (webhook cfg e req s) = s"
      by (simp add: webhook_gather[OF req])
    with posted show False by simp
  qed
  obtain t' where first: "on_gather_ended cfg e (JObj kvs) s =
     (Inr (jsonify [(''status'', JStr ''gather_processed''),
                    (''digit'', JStr (extract_digits kvs))] 200),
      s\<lparr>db := Some t', posts := posts s @ [transfer_request ccid u],
        ROUTED_CALLS := (if response_ok (transfer_http e) then insert k (ROUTED_CALLS s)
                         else ROUTED_CALLS s)\<rparr>)"
    using gather_mapped_ready[OF guard(1,2,3,4)[unfolded ccid] digit u ready] ccid by blast
  let ?s' = "s\<lparr>db := Some t', posts := posts s @ [transfer_request ccid u],
        ROUTED_CALLS := (if response_ok (transfer_http e) then insert k (ROUTED_CALLS s)
                         else ROUTED_CALLS s)\<rparr>"
  have s': "snd (webhook cfg e req s) = ?s'"
    by (simp add: webhook_gather[OF req] first)
  have ok: "response_ok (transfer_http e) \<Longrightarrow> k \<in> ROUTED_CALLS ?s'"
    by simp
  have again: "fst (webhook cfg e2 req ?s') =
                 Inr (jsonify [(''status'', JStr ''gather_processed''),
                               (''digit'', JStr (extract_digits kvs))] 200) \<and>
               (\<exists>u. new_posts ?s' (snd (webhook cfg e2 req ?s')) = [transfer_request ccid u])"
    if fail: "\<not> response_ok (transfer_http e)" for e2
  proof -
    have g: "k \<notin> ROUTED_CALLS ?s'" "k \<notin> ENDED_CALLS ?s'" "db ?s' \<noteq> None \<or> init_db_ok e2"
      using fail guard by simp_all
    obtain t2 where "on_gather_ended cfg e2 (JObj kvs) ?s' =
       (Inr (jsonify [(''status'', JStr ''gather_processed''),
                      (''digit'', JStr (extract_digits kvs))] 200),
        ?s'\<lparr>db := Some t2, posts := posts ?s' @ [transfer_request ccid u],
          ROUTED_CALLS := (if response_ok (transfer_http e2) then insert k (ROUTED_CALLS ?s')
                           else ROUTED_CALLS ?s')\<rparr>)"
      using gather_mapped_ready[OF guard(1,2)[unfolded ccid] g(1,2) digit u g(3)] ccid
      by blast
    then show ?thesis
      by (auto simp: webhook_gather[OF req] new_posts_def)
  qed
  show ?thesis
    unfolding s' using ok again guard by simp
qed


lemmas delivery_eval =
  webhook_def try_body_def on_gather_ended_def on_initiated_def on_hangup_def on_other_def
  read_request_def ex_delivery_def ex_gather_def ex_initiated_def ex_hangup_def ex_call_def
  ex_env_def ex_cfg_def init_state_def dict_get_def py_hash_def Let_def
  log_event_def log_ivr_selection_def log_transfer_def save_call_if_new_def ensure_db_def
  empty_tables_def sql_text_def extract_digits_def py_or_def py_str_def py_strip_def
  py_isspace_def DIGIT_TO_DEPARTMENT_def DEPARTMENT_URIS_def valid_departments_def
  transfer_call_def answer_call_def start_menu_def response_ok_def new_posts_def
  stored_calls_def stored_ivr_def stored_transfers_def

theorem transfer_outcome_witness:
  "KStr ''abc'' \<notin> ROUTED_CALLS (snd (webhook ex_cfg (ex_env\<lparr>transfer_http := Some 500\<rparr>)
       (ex_delivery ''call.gather.ended'' (ex_gather ''2'')) (init_state None))) \<and>
   (\<forall>e2. fst (webhook ex_cfg e2 (ex_delivery ''call.gather.ended'' (ex_gather ''2''))
              (snd (webhook ex_cfg (ex_env\<lparr>transfer_http := Some 500\<rparr>)
                 (ex_delivery ''call.gather.ended'' (ex_gather ''2'')) (init_state None)))) =
          Inr (jsonify [(''status'', JStr ''gather_processed''), (''digit'', JStr ''2'')] 200))"
proof -
  let ?req = "ex_delivery ''call.gather.ended'' (ex_gather ''2'')"
  let ?e = "ex_env\<lparr>transfer_http := Some 500\<rparr>"
  have c: "JStr ''abc'' = dict_get (ex_gather ''2'') ''call_control_id'' JNull"
    by (simp add: ex_gather_def dict_get_def)
  have g: "py_truthy (JStr ''abc'')" "py_hash (JStr ''abc'') = Some (KStr ''abc'')"
    "KStr ''abc'' \<notin> ROUTED_CALLS (init_state None)"
    "KStr ''abc'' \<notin> ENDED_CALLS (init_state None)"
    by (simp_all add: py_hash_def init_state_def)
  have x: "extract_digits (ex_gather ''2'') = ''2''"
    by (simp add: delivery_eval)
  have d: "map_of DIGIT_TO_DEPARTMENT (extract_digits (ex_gather ''2'')) = Some ''support''"
    by (simp add: x digit_table)
  have "transfer_request (JStr ''abc'') ''sip:agent2@sip.telnyx.com''
          \<in> set (new_posts (init_state None) (snd (webhook ex_cfg ?e ?req (init_state None))))"
    by (simp add: delivery_eval)
  then have p: "\<exists>u. transfer_request (JStr ''abc'') u
          \<in> set (new_posts (init_state None) (snd (webhook ex_cfg ?e ?req (init_state None))))"
    by blast
  have f: "\<not> response_ok (transfer_http ?e)"
    by (simp add: response_ok_def)
  from transfer_outcome_decides_routing[OF read_ex_delivery c g d p] f x
  show ?thesis by simp
qed

subsection \<open>An unmapped digit\<close>

lemma log_event_keeps:
  assumes "log_event e c ty p st = Inr d1"
  shows "stored_ivr d1 = stored_ivr st" "stored_transfers d1 = stored_transfers st"
  using assms
  by (auto simp: log_event_def ensure_db_def stored_ivr_def stored_transfers_def
      empty_tables_def split: option.splits if_splits)

lemma gather_unmapped:
  assumes "py_truthy (dict_get kvs ''call_control_id'' JNull)"
    and "py_hash (dict_get kvs ''call_control_id'' JNull) = Some k"
    and "k \<notin> ROUTED_CALLS s" "k \<notin> ENDED_CALLS s"
    and "map_of DIGIT_TO_DEPARTMENT (extract_digits kvs) = None"
  shows "on_gather_ended cfg e (JObj kvs) s =
     (case log_event e (dict_get kvs ''call_control_id'' JNull) (JStr ''call.gather.ended'')
             (JObj kvs) (db s) of
        Inl x \<Rightarrow> (Inl x, s)
      | Inr d1 \<Rightarrow>
          (Inr (jsonify [(''status'', JStr ''gather_processed''),
                         (''digit'', JStr (extract_digits kvs))] 200),
           start_menu e (dict_get kvs ''call_control_id'' JNull) (s\<lparr>db := d1\<rparr>)))"
  using assms by (simp add: on_gather_ended_def Let_def str_or_empty split: sum.splits)

lemma log_ivr_appends:
  assumes "dp \<in> valid_departments"
  shows "\<exists>t2. log_ivr_selection e c d dp (Some t1) = Inr (Some t2) \<and>
           ivr_interactions t2 = ivr_interactions t1 @
             (case (log_ivr_sql e, sql_text c) of
                (Some now, Some cid) \<Rightarrow>
                  [\<lparr>ivr_call_id = cid, ivr_digit = d, ivr_department = dp,
                    ivr_ts = now @ ''Z''\<rparr>]
              | _ \<Rightarrow> [])"
  using assms
  by (auto simp: log_ivr_selection_def ensure_db_def split: option.splits)

lemma log_transfer_keeps_ivr:
  "\<exists>t3. log_transfer e c u st (Some t2) = Inr (Some t3) \<and>
        ivr_interactions t3 = ivr_interactions t2"
  by (auto simp: log_transfer_def ensure_db_def split: option.splits)

lemma gather_mapped_ivr:
  assumes "py_truthy (dict_get kvs ''call_control_id'' JNull)"
    and "py_hash (dict_get kvs ''call_control_id'' JNull) = Some k"
    and "k \<notin> ROUTED_CALLS s" "k \<notin> ENDED_CALLS s"
    and "map_of DIGIT_TO_DEPARTMENT (extract_digits kvs) = Some dp"
    and "map_of (DEPARTMENT_URIS cfg) dp = Some u"
    and "db s \<noteq> None \<or> init_db_ok e"
  shows "stored_ivr (db (snd (on_gather_ended cfg e (JObj kvs) s))) =
     stored_ivr (db s) @
       (case (log_ivr_sql e, sql_text (dict_get kvs ''call_control_id'' JNull)) of
          (Some now, Some cid) \<Rightarrow>
            [\<lparr>ivr_call_id = cid, ivr_digit = extract_digits kvs, ivr_department = dp,
              ivr_ts = now @ ''Z''\<rparr>]
        | _ \<Rightarrow> [])"
proof -
  let ?c = "dict_get kvs ''call_control_id'' JNull"
  let ?st = "if response_ok (transfer_http e) then ''success'' else ''error''"
  from digit_mapped[OF assms(5), of cfg] have dp: "dp \<noteq> []" "dp \<in> valid_departments"
    by simp_all
  obtain t1 where t1:
    "log_event e ?c (JStr ''call.gather.ended'') (JObj kvs) (db s) = Inr (Some t1)"
    using store_ready_log_event[OF assms(7)] by blast
  have k1: "ivr_interactions t1 = stored_ivr (db s)"
    using log_event_keeps(1)[OF t1] by (simp add: stored_ivr_def)
  obtain t2 where t2:
    "log_ivr_selection e ?c (extract_digits kvs) dp (Some t1) = Inr (Some t2)"
    and k2: "ivr_interactions t2 = ivr_interactions t1 @
             (case (log_ivr_sql e, sql_text ?c) of
                (Some now, Some cid) \<Rightarrow>
                  [\<lparr>ivr_call_id = cid, ivr_digit = extract_digits kvs, ivr_department = dp,
                    ivr_ts = now @ ''Z''\<rparr>]
              | _ \<Rightarrow> [])"
    using log_ivr_appends[OF dp(2)] by blast
  obtain t3 where t3: "log_transfer e ?c u ?st (Some t2) = Inr (Some t3)"
    and k3: "ivr_interactions t3 = ivr_interactions t2"
    using log_transfer_keeps_ivr by blast
  have "db (snd (on_gather_ended cfg e (JObj kvs) s)) = Some t3"
    using assms(1-6) dp t1 t2 t3
    by (simp add: on_gather_ended_def Let_def str_or_empty transfer_call_def)
  then show ?thesis
    by (simp add: stored_ivr_def k1 k2 k3)
qed

text \<open>
  The table is 1 to sales, 2 to support, 3 to porting, and a mapped digit is routed to its
  department: on a delivery that passes the idempotence guard, the event store's
  initialisation not failing, the one POST is the transfer to the address of the
  department, and the IvrSelection row written (when the insert goes through) names the
  digit and the department.
\<close>

lemma mapped_digit_routes_to_department:
  assumes req: "read_request req = Inr (JStr ''call.gather.ended'', JObj kvs)"
    and ccid: "ccid = dict_get kvs ''call_control_id'' JNull"
    and guard: "py_truthy ccid" "py_hash ccid = Some k"
      "k \<notin> ROUTED_CALLS s" "k \<notin> ENDED_CALLS s"
    and ready: "db s \<noteq> None \<or> init_db_ok e"
    and digit: "(extract_digits kvs, dp, u) \<in>
      {(''1'', ''sales'', sales_sip_uri cfg), (''2'', ''support'', support_sip_uri cfg),
       (''3'', ''porting'', porting_sip_uri cfg)}"
  shows "new_posts s (snd (webhook cfg e req s)) = [transfer_request ccid u]"
    and "stored_ivr (db (snd (webhook cfg e req s))) =
     stored_ivr (db s) @
       (case (log_ivr_sql e, sql_text ccid) of
          (Some now, Some cid) \<Rightarrow>
            [\<lparr>ivr_call_id = cid, ivr_digit = extract_digits kvs, ivr_department = dp,
              ivr_ts = now @ ''Z''\<rparr>]
        | _ \<Rightarrow> [])"
proof -
  have dp: "map_of DIGIT_TO_DEPARTMENT (extract_digits kvs) = Some dp"
    and u: "map_of (DEPARTMENT_URIS cfg) dp = Some u"
    using digit by (auto simp: digit_table DEPARTMENT_URIS_def)
  obtain t' where "on_gather_ended cfg e (JObj kvs) s =
     (Inr (jsonify [(''status'', JStr ''gather_processed''),
                    (''digit'', JStr (extract_digits kvs))] 200),
      s\<lparr>db := Some t', posts := posts s @ [transfer_request ccid u],
        ROUTED_CALLS := (if response_ok (transfer_http e) then insert k (ROUTED_CALLS s)
                         else ROUTED_CALLS s)\<rparr>)"
    using gather_mapped_ready[OF guard(1,2,3,4)[unfolded ccid] dp u ready] ccid by blast
  then show "new_posts s (snd (webhook cfg e req s)) = [transfer_request ccid u]"
    by (simp add: webhook_gather[OF req] new_posts_def)
  show "stored_ivr (db (snd (webhook cfg e req s))) =
     stored_ivr (db s) @
       (case (log_ivr_sql e, sql_text ccid) of
          (Some now, Some cid) \<Rightarrow>
            [\<lparr>ivr_call_id = cid, ivr_digit = extract_digits kvs, ivr_department = dp,
              ivr_ts = now @ ''Z''\<rparr>]
        | _ \<Rightarrow> [])"
    using gather_mapped_ivr[OF guard(1,2,3,4)[unfolded ccid] dp u ready] ccid
    by (auto simp: webhook_gather[OF req] split: prod.splits sum.splits)
qed

text \<open>
  A delivery that passes the idempotence guard and whose extracted digit is outside the
  table (the empty string included) writes no IvrSelection and no Transfer row and changes
  neither set. When the event store's initialisation does not fail, the menu is replayed
  (the one POST of the delivery is the menu command) and the acknowledgement is
  \<^verbatim>\<open>gather_processed\<close> with the digit; when it fails, \<^verbatim>\<open>log_event\<close> raises, nothing
  is posted and the acknowledgement is \<^verbatim>\<open>error\<close>.
\<close>

lemma unmapped_digit_outcome:
  assumes req: "read_request req = Inr (JStr ''call.gather.ended'', JObj kvs)"
    and ccid: "ccid = dict_get kvs ''call_control_id'' JNull"
    and guard: "py_truthy ccid" "py_hash ccid = Some k"
      "k \<notin> ROUTED_CALLS s" "k \<notin> ENDED_CALLS s"
    and digit: "extract_digits kvs \<notin> {''1'', ''2'', ''3''}"
  shows "stored_ivr (db (snd (webhook cfg e req s))) = stored_ivr (db s) \<and>
         stored_transfers (db (snd (webhook cfg e req s))) = stored_transfers (db s) \<and>
         ROUTED_CALLS (snd (webhook cfg e req s)) = ROUTED_CALLS s \<and>
         ENDED_CALLS (snd (webhook cfg e req s)) = ENDED_CALLS s \<and>
         (if db s \<noteq> None \<or> init_db_ok e
          then fst (webhook cfg e req s) =
                 Inr (jsonify [(''status'', JStr ''gather_processed''),
                               (''digit'', JStr (extract_digits kvs))] 200) \<and>
               new_posts s (snd (webhook cfg e req s)) = [menu_request ccid]
          else fst (webhook cfg e req s) = Inr (jsonify [(''status'', JStr ''error'')] 200) \<and>
               new_posts s (snd (webhook cfg e req s)) = [])"
proof -
  have none: "map_of DIGIT_TO_DEPARTMENT (extract_digits kvs) = None"
    using digit by (simp add: digit_table)
  show ?thesis
  proof (cases "db s \<noteq> None \<or> init_db_ok e")
    case True
    obtain t' where t':
      "log_event e ccid (JStr ''call.gather.ended'') (JObj kvs) (db s) = Inr (Some t')"
      using store_ready_log_event[OF True] by blast
    have w: "webhook cfg e req s =
        (Inr (jsonify [(''status'', JStr ''gather_processed''),
                       (''digit'', JStr (extract_digits kvs))] 200),
         start_menu e ccid (s\<lparr>db := Some t'\<rparr>))"
      using gather_unmapped[OF guard[unfolded ccid] none] t' ccid
      by (simp add: webhook_gather[OF req])
    show ?thesis
      using True log_event_keeps[OF t']
      by (simp add: w start_menu_def new_posts_def)
  next
    case False
    have w: "webhook cfg e req s = (Inr (jsonify [(''status'', JStr ''error'')] 200), s)"
      using gather_not_ready[OF guard[unfolded ccid] False]
      by (simp add: webhook_gather[OF req])
    show ?thesis
      using False by (simp add: w)
  qed
qed

text \<open>
  C3. A delivery that passes the guard and carries a digit outside the table is meant to
  replay the menu, and here it does not. The process has just started, there is no
  database file, and \<^verbatim>\<open>init_db\<close> fails (it reads \<^verbatim>\<open>db/schema.sql\<close>, logs and
  re-raises). The delivery carries the call id \<^verbatim>\<open>abc\<close>, in neither set, and the digit
  \<^verbatim>\<open>9\<close>. \<^verbatim>\<open>log_event\<close> calls \<^verbatim>\<open>ensure_db()\<close> in front of its \<^verbatim>\<open>try\<close>, the exception
  reaches the handler, and \<^verbatim>\<open>start_menu\<close> is never called: nothing is posted and the
  acknowledgement is \<^verbatim>\<open>error\<close>. In the same state a world whose \<^verbatim>\<open>init_db\<close> succeeds
  gets the menu replayed.
\<close>

theorem unmapped_digit_not_replayed_when_init_fails:
  "extract_digits (ex_gather ''9'') = ''9'' \<and>
   py_hash (dict_get (ex_gather ''9'') ''call_control_id'' JNull) = Some (KStr ''abc'') \<and>
   KStr ''abc'' \<notin> ROUTED_CALLS (init_state None) \<and>
   KStr ''abc'' \<notin> ENDED_CALLS (init_state None) \<and>
   new_posts (init_state None)
     (snd (webhook ex_cfg (ex_env\<lparr>init_db_ok := False\<rparr>)
        (ex_delivery ''call.gather.ended'' (ex_gather ''9'')) (init_state None))) = [] \<and>
   fst (webhook ex_cfg (ex_env\<lparr>init_db_ok := False\<rparr>)
        (ex_delivery ''call.gather.ended'' (ex_gather ''9'')) (init_state None)) =
     Inr (jsonify [(''status'', JStr ''error'')] 200) \<and>
   new_posts (init_state None)
     (snd (webhook ex_cfg ex_env
        (ex_delivery ''call.gather.ended'' (ex_gather ''9'')) (init_state None))) =
     [menu_request (JStr ''abc'')] \<and>
   fst (webhook ex_cfg ex_env
        (ex_delivery ''call.gather.ended'' (ex_gather ''9'')) (init_state None)) =
     Inr (jsonify [(''status'', JStr ''gather_processed''), (''digit'', JStr ''9'')] 200)"
  by (simp add: delivery_eval)

subsection \<open>The initiated branch\<close>

lemma save_call_ready:
  assumes "st \<noteq> None \<or> init_db_ok e" and "sql_text ccid = Some c"
  shows "\<exists>t1. save_call_if_new e ccid f to st = Inr (Some t1) \<and>
           calls t1 = stored_calls st @ new_call_rows e c f to (stored_calls st)"
  using assms
  by (cases st)
     (auto simp: save_call_if_new_def ensure_db_def stored_calls_def new_call_rows_def
        empty_tables_def split: option.splits)

lemma log_event_calls:
  "\<exists>t2. log_event e c ty p (Some t1) = Inr (Some t2) \<and> calls t2 = calls t1"
  by (auto simp: log_event_def ensure_db_def split: option.splits)

lemma webhook_initiated:
  assumes "read_request req = Inr (JStr ''call.initiated'', ev)"
  shows "webhook cfg e req s =
     (case on_initiated e ev s of
        (Inl x, s') \<Rightarrow> (Inr (jsonify [(''status'', JStr ''error'')] 200), s')
      | (Inr r, s') \<Rightarrow> (Inr r, s'))"
  using assms by (simp add: webhook_def try_body_def)

lemma initiated_ready:
  assumes truthy: "py_truthy (dict_get kvs ''call_control_id'' JNull)"
    and bound: "sql_text (dict_get kvs ''call_control_id'' JNull) = Some c"
    and ready: "db s \<noteq> None \<or> init_db_ok e"
  shows "\<exists>t2. on_initiated e (JObj kvs) s =
     (Inr (jsonify [(''status'', JStr (if response_ok (answer_http e)
                                      then ''answered_and_menu_started''
                                      else ''answer_failed''))] 200),
      s\<lparr>db := Some t2,
        posts := posts s @ answer_request (dict_get kvs ''call_control_id'' JNull) #
                   (if response_ok (answer_http e)
                    then [menu_request (dict_get kvs ''call_control_id'' JNull)] else [])\<rparr>) \<and>
     calls t2 = stored_calls (db s) @
        new_call_rows e c (py_or (dict_get kvs ''from'' JNull) (JStr ''unknown''))
          (py_or (dict_get kvs ''to'' JNull) (JStr ''unknown'')) (stored_calls (db s))"
proof -
  let ?c = "dict_get kvs ''call_control_id'' JNull"
  let ?f = "py_or (dict_get kvs ''from'' JNull) (JStr ''unknown'')"
  let ?t = "py_or (dict_get kvs ''to'' JNull) (JStr ''unknown'')"
  obtain t1 where t1: "save_call_if_new e ?c ?f ?t (db s) = Inr (Some t1)"
    and c1: "calls t1 = stored_calls (db s) @ new_call_rows e c ?f ?t (stored_calls (db s))"
    using save_call_ready[OF ready bound] by blast
  obtain t2 where t2:
    "log_event e ?c (JStr ''call.initiated'') (JObj kvs) (Some t1) = Inr (Some t2)"
    and c2: "calls t2 = calls t1"
    using log_event_calls by blast
  have "on_initiated e (JObj kvs) s =
     (Inr (jsonify [(''status'', JStr (if response_ok (answer_http e)
                                      then ''answered_and_menu_started''
                                      else ''answer_failed''))] 200),
      s\<lparr>db := Some t2,
        posts := posts s @ answer_request ?c #
                   (if response_ok (answer_http e) then [menu_request ?c] else [])\<rparr>)"
    using truthy t1 t2
    by (simp add: on_initiated_def Let_def answer_call_def start_menu_def)
  with c1 c2 show ?thesis by auto
qed

lemma count_new_call_rows:
  "length (filter (\<lambda>r. call_id r = c) (rows @ new_call_rows e c f to rows)) \<le>
     max 1 (length (filter (\<lambda>r. call_id r = c) rows))"
proof (cases "c \<in> set (map call_id rows)")
  case True
  then show ?thesis by (simp add: new_call_rows_def)
next
  case False
  then have "filter (\<lambda>r. call_id r = c) rows = []"
    by (auto simp: filter_empty_conv)
  then show ?thesis
    by (simp add: new_call_rows_def split: option.splits)
qed

text \<open>
  C5, as the claim states it, fails: sqlite raising inside \<^verbatim>\<open>save_call_if_new\<close> is logged
  and swallowed. The call id \<^verbatim>\<open>abc\<close> has not been seen, the \<^verbatim>\<open>call.initiated\<close>
  delivery posts the answer and the menu command, and no Call record exists afterwards.
\<close>

theorem initiated_without_record_counterexample:
  "''abc'' \<notin> set (map call_id (stored_calls (db (init_state None)))) \<and>
   new_posts (init_state None)
     (snd (webhook ex_cfg (ex_env\<lparr>save_call_sql := None\<rparr>)
        (ex_delivery ''call.initiated'' ex_initiated) (init_state None))) =
     [answer_request (JStr ''abc''), menu_request (JStr ''abc'')] \<and>
   stored_calls (db (snd (webhook ex_cfg (ex_env\<lparr>save_call_sql := None\<rparr>)
        (ex_delivery ''call.initiated'' ex_initiated) (init_state None)))) = []"
  by (simp add: delivery_eval)

text \<open>
  C5, amended. Take a \<^verbatim>\<open>call.initiated\<close> delivery whose call id is truthy and binds as the
  text \<open>c\<close>, no Call record with that id existing, and during which the event store's
  initialisation does not fail. Exactly one answer command is posted; the menu command is
  posted exactly once, after it, when the answer succeeded and not at all otherwise. One Call
  record for \<open>c\<close> is created when the insert goes through (the statement succeeds and
  the from and to values bind), none when it fails. Delivering the same event again, in
  whatever world, leaves at most one Call record for \<open>c\<close>.
\<close>

theorem initiated_records_and_answers:
  assumes req: "read_request req = Inr (JStr ''call.initiated'', JObj kvs)"
    and ccid: "ccid = dict_get kvs ''call_control_id'' JNull"
    and truthy: "py_truthy ccid"
    and bound: "sql_text ccid = Some c"
    and unseen: "c \<notin> set (map call_id (stored_calls (db s)))"
    and ready: "db s \<noteq> None \<or> init_db_ok e"
  shows "new_posts s (snd (webhook cfg e req s)) =
           answer_request ccid #
             (if response_ok (answer_http e) then [menu_request ccid] else []) \<and>
         stored_calls (db (snd (webhook cfg e req s))) =
           stored_calls (db s) @
           (case (save_call_sql e,
                  sql_text (py_or (dict_get kvs ''from'' JNull) (JStr ''unknown'')),
                  sql_text (py_or (dict_get kvs ''to'' JNull) (JStr ''unknown''))) of
              (Some now, Some f, Some to) \<Rightarrow>
                [\<lparr>call_id = c, call_from = f, call_to = to, call_created_at = now @ ''Z''\<rparr>]
            | _ \<Rightarrow> []) \<and>
         (\<forall>e2. length (filter (\<lambda>r. call_id r = c)
                  (stored_calls (db (snd (webhook cfg e2 req (snd (webhook cfg e req s)))))))
                \<le> 1)"
proof -
  let ?f = "py_or (dict_get kvs ''from'' JNull) (JStr ''unknown'')"
  let ?t = "py_or (dict_get kvs ''to'' JNull) (JStr ''unknown'')"
  obtain t2 where first: "on_initiated e (JObj kvs) s =
     (Inr (jsonify [(''status'', JStr (if response_ok (answer_http e)
                                      then ''answered_and_menu_started''
                                      else ''answer_failed''))] 200),
      s\<lparr>db := Some t2,
        posts := posts s @ answer_request ccid #
                   (if response_ok (answer_http e) then [menu_request ccid] else [])\<rparr>)"
    and c2: "calls t2 = stored_calls (db s) @ new_call_rows e c ?f ?t (stored_calls (db s))"
    using initiated_ready[OF truthy[unfolded ccid] bound[unfolded ccid] ready] ccid by blast
  let ?s' = "s\<lparr>db := Some t2,
        posts := posts s @ answer_request ccid #
                   (if response_ok (answer_http e) then [menu_request ccid] else [])\<rparr>"
  have s': "snd (webhook cfg e req s) = ?s'"
    by (simp add: webhook_initiated[OF req] first)
  have a: "new_posts s ?s' =
      answer_request ccid # (if response_ok (answer_http e) then [menu_request ccid] else [])"
    by (simp add: new_posts_def)
  have b: "stored_calls (db ?s') = stored_calls (db s) @
           (case (save_call_sql e, sql_text ?f, sql_text ?t) of
              (Some now, Some f, Some to) \<Rightarrow>
                [\<lparr>call_id = c, call_from = f, call_to = to, call_created_at = now @ ''Z''\<rparr>]
            | _ \<Rightarrow> [])"
    using c2 unseen by (simp add: stored_calls_def new_call_rows_def)
  have one: "length (filter (\<lambda>r. call_id r = c) (stored_calls (db ?s'))) \<le> 1"
  proof -
    have "filter (\<lambda>r. call_id r = c) (stored_calls (db s)) = []"
      using unseen by (auto simp: filter_empty_conv)
    with count_new_call_rows[of c "stored_calls (db s)" e ?f ?t] c2
    show ?thesis by (simp add: stored_calls_def)
  qed
  have c: "length (filter (\<lambda>r. call_id r = c)
             (stored_calls (db (snd (webhook cfg e2 req ?s'))))) \<le> 1" for e2
  proof -
    have r2: "db ?s' \<noteq> None \<or> init_db_ok e2" by simp
    obtain t3 where second: "on_initiated e2 (JObj kvs) ?s' =
       (Inr (jsonify [(''status'', JStr (if response_ok (answer_http e2)
                                        then ''answered_and_menu_started''
                                        else ''answer_failed''))] 200),
        ?s'\<lparr>db := Some t3,
          posts := posts ?s' @ answer_request ccid #
                   (if response_ok (answer_http e2) then [menu_request ccid] else [])\<rparr>)"
      and c3: "calls t3 = stored_calls (db ?s') @
                 new_call_rows e2 c ?f ?t (stored_calls (db ?s'))"
      using initiated_ready[OF truthy[unfolded ccid] bound[unfolded ccid] r2] ccid by blast
    have "stored_calls (db (snd (webhook cfg e2 req ?s'))) = calls t3"
      by (simp add: webhook_initiated[OF req] second stored_calls_def)
    with c3 count_new_call_rows[of c "stored_calls (db ?s')" e2 ?f ?t] one
    show ?thesis by simp
  qed
  show ?thesis
    unfolding s' using a b c by blast
qed

theorem initiated_records_and_answers_witness:
  "new_posts (init_state None)
     (snd (webhook ex_cfg ex_env (ex_delivery ''call.initiated'' ex_initiated)
        (init_state None))) =
     [answer_request (JStr ''abc''), menu_request (JStr ''abc'')] \<and>
   stored_calls (db (snd (webhook ex_cfg ex_env (ex_delivery ''call.initiated'' ex_initiated)
        (init_state None)))) =
     [\<lparr>call_id = ''abc'', call_from = ''+1555'', call_to = ''+1800'',
       call_created_at = ''2026-01-01T10:00:00.000100Z''\<rparr>] \<and>
   (\<forall>e2. length (filter (\<lambda>r. call_id r = ''abc'')
            (stored_calls (db (snd (webhook ex_cfg e2
               (ex_delivery ''call.initiated'' ex_initiated)
               (snd (webhook ex_cfg ex_env (ex_delivery ''call.initiated'' ex_initiated)
                  (init_state None)))))))) \<le> 1)"
proof -
  have c: "JStr ''abc'' = dict_get ex_initiated ''call_control_id'' JNull"
    by (simp add: ex_initiated_def dict_get_def)
  have h: "py_truthy (JStr ''abc'')" "sql_text (JStr ''abc'') = Some ''abc''"
    "''abc'' \<notin> set (map call_id (stored_calls (db (init_state None))))"
    "db (init_state None) \<noteq> None \<or> init_db_ok ex_env"
    by (simp_all add: sql_text_def init_state_def stored_calls_def ex_env_def)
  have v: "response_ok (answer_http ex_env)" "save_call_sql ex_env = Some ''2026-01-01T10:00:00.000100''"
    "py_or (dict_get ex_initiated ''from'' JNull) (JStr ''unknown'') = JStr ''+1555''"
    "py_or (dict_get ex_initiated ''to'' JNull) (JStr ''unknown'') = JStr ''+1800''"
    "stored_calls (db (init_state None)) = []"
    by (simp_all add: ex_env_def response_ok_def ex_initiated_def dict_get_def py_or_def
        init_state_def stored_calls_def)
  from initiated_records_and_answers[OF read_ex_delivery c h, of ex_cfg] v
  show ?thesis by (simp add: sql_text_def)
qed



subsection \<open>What a delivery does to the two sets\<close>

lemma start_menu_sets [simp]:
  "ROUTED_CALLS (start_menu e c s) = ROUTED_CALLS s"
  "ENDED_CALLS (start_menu e c s) = ENDED_CALLS s"
  by (simp_all add: start_menu_def)

lemma on_initiated_sets:
  "ROUTED_CALLS (snd (on_initiated e ev s)) = ROUTED_CALLS s \<and>
   ENDED_CALLS (snd (on_initiated e ev s)) = ENDED_CALLS s"
  by (simp add: on_initiated_def Let_def answer_call_def split: json.splits sum.splits)

lemma on_other_sets:
  "ROUTED_CALLS (snd (on_other e ty ev s)) = ROUTED_CALLS s \<and>
   ENDED_CALLS (snd (on_other e ty ev s)) = ENDED_CALLS s"
  by (simp add: on_other_def Let_def split: json.splits sum.splits)

lemma on_hangup_sets:
  "ROUTED_CALLS (snd (on_hangup e ev s)) = ROUTED_CALLS s \<and>
   ENDED_CALLS s \<subseteq> ENDED_CALLS (snd (on_hangup e ev s))"
  by (auto simp: on_hangup_def Let_def split: json.splits sum.splits option.splits)

lemma on_gather_ended_sets:
  "ENDED_CALLS (snd (on_gather_ended cfg e ev s)) = ENDED_CALLS s \<and>
   ROUTED_CALLS s \<subseteq> ROUTED_CALLS (snd (on_gather_ended cfg e ev s)) \<and>
   (ROUTED_CALLS (snd (on_gather_ended cfg e ev s)) - ROUTED_CALLS s) \<inter> ENDED_CALLS s = {}"
  by (auto simp: on_gather_ended_def Let_def transfer_call_def
      split: json.splits sum.splits option.splits if_splits)

lemma snd_webhook:
  "snd (webhook cfg e req s) =
     (case read_request req of
        Inl x \<Rightarrow> s
      | Inr (etype, ev) \<Rightarrow> snd (try_body cfg e etype ev s))"
  by (simp add: webhook_def split: sum.splits prod.splits)

lemma webhook_sets:
  "ROUTED_CALLS s \<subseteq> ROUTED_CALLS (snd (webhook cfg e req s)) \<and>
   ENDED_CALLS s \<subseteq> ENDED_CALLS (snd (webhook cfg e req s)) \<and>
   (ROUTED_CALLS (snd (webhook cfg e req s)) - ROUTED_CALLS s) \<inter>
      ENDED_CALLS (snd (webhook cfg e req s)) = {}"
  using on_initiated_sets[of e _ s] on_other_sets[of e _ _ s] on_hangup_sets[of e _ s]
    on_gather_ended_sets[of cfg e _ s]
  by (simp add: snd_webhook try_body_def split: sum.splits prod.splits)

lemma run_sets:
  "ROUTED_CALLS s \<subseteq> ROUTED_CALLS (run cfg ds s) \<and>
   ENDED_CALLS s \<subseteq> ENDED_CALLS (run cfg ds s)"
proof (induction ds arbitrary: s)
  case Nil
  then show ?case by simp
next
  case (Cons d ds)
  obtain e req where d: "d = (e, req)" by (cases d)
  from Cons.IH[of "snd (webhook cfg e req s)"] webhook_sets[of s cfg e req]
  show ?case unfolding d by auto
qed

text \<open>
  C6, as the claim states it, fails: a call is routed (digit 2, the transfer succeeds) and
  then hangs up; the process started with both sets empty, and after the two deliveries
  the call id \<^verbatim>\<open>abc\<close> is a member of the routed set and of the ended set.
\<close>

theorem routed_and_ended_counterexample:
  "KStr ''abc'' \<in> ROUTED_CALLS
     (run ex_cfg [(ex_env, ex_delivery ''call.gather.ended'' (ex_gather ''2'')),
                  (ex_env, ex_delivery ''call.hangup'' ex_hangup)] (init_state None)) \<and>
   KStr ''abc'' \<in> ENDED_CALLS
     (run ex_cfg [(ex_env, ex_delivery ''call.gather.ended'' (ex_gather ''2'')),
                  (ex_env, ex_delivery ''call.hangup'' ex_hangup)] (init_state None))"
  by (simp add: delivery_eval)

lemma webhook_hangup:
  assumes "read_request req = Inr (JStr ''call.hangup'', ev)"
  shows "webhook cfg e req s =
     (case on_hangup e ev s of
        (Inl x, s') \<Rightarrow> (Inr (jsonify [(''status'', JStr ''error'')] 200), s')
      | (Inr r, s') \<Rightarrow> (Inr r, s'))"
  using assms by (simp add: webhook_def try_body_def)

lemma hangup_ready:
  assumes "py_truthy (dict_get kvs ''call_control_id'' JNull)"
    and "py_hash (dict_get kvs ''call_control_id'' JNull) = Some k"
    and "db s \<noteq> None \<or> init_db_ok e"
  shows "\<exists>t'. on_hangup e (JObj kvs) s =
     (Inr (jsonify [(''status'', JStr ''received'')] 200),
      s\<lparr>db := Some t', ENDED_CALLS := insert k (ENDED_CALLS s)\<rparr>)"
proof -
  obtain t' where
    "log_event e (dict_get kvs ''call_control_id'' JNull) (JStr ''call.hangup'') (JObj kvs)
       (db s) = Inr (Some t')"
    using store_ready_log_event[OF assms(3)] by blast
  then have "on_hangup e (JObj kvs) s =
     (Inr (jsonify [(''status'', JStr ''received'')] 200),
      s\<lparr>db := Some t', ENDED_CALLS := insert k (ENDED_CALLS s)\<rparr>)"
    using assms(1,2) by (simp add: on_hangup_def Let_def)
  then show ?thesis by blast
qed

text \<open>
  C6, amended. The routed set and the ended set need not be disjoint. In every run of
  deliveries, from any state, both sets only grow. The delivery that follows a run puts
  into the routed set no call id that is in the ended set after it. And when that delivery
  is a \<^verbatim>\<open>call.hangup\<close> whose payload is an object with a call id that is truthy and
  hashable, and the event store's initialisation does not fail during it (the database
  file exists or \<^verbatim>\<open>init_db\<close> succeeds), the call id is added to the ended set, whether
  or not it is in the routed set, and the routed set stays as it is.
\<close>

theorem sets_grow_and_routing_is_guarded:
  "ROUTED_CALLS s \<subseteq> ROUTED_CALLS (run cfg ds s) \<and>
   ENDED_CALLS s \<subseteq> ENDED_CALLS (run cfg ds s) \<and>
   (ROUTED_CALLS (snd (webhook cfg e req (run cfg ds s))) - ROUTED_CALLS (run cfg ds s)) \<inter>
      ENDED_CALLS (snd (webhook cfg e req (run cfg ds s))) = {} \<and>
   (\<forall>kvs k. read_request req = Inr (JStr ''call.hangup'', JObj kvs) \<and>
        py_truthy (dict_get kvs ''call_control_id'' JNull) \<and>
        py_hash (dict_get kvs ''call_control_id'' JNull) = Some k \<and>
        (db (run cfg ds s) \<noteq> None \<or> init_db_ok e) \<longrightarrow>
        ENDED_CALLS (snd (webhook cfg e req (run cfg ds s))) =
          insert k (ENDED_CALLS (run cfg ds s)) \<and>
        ROUTED_CALLS (snd (webhook cfg e req (run cfg ds s))) = ROUTED_CALLS (run cfg ds s))"
proof -
  have hang: "ENDED_CALLS (snd (webhook cfg e req t)) = insert k (ENDED_CALLS t) \<and>
        ROUTED_CALLS (snd (webhook cfg e req t)) = ROUTED_CALLS t"
    if hreq: "read_request req = Inr (JStr ''call.hangup'', JObj kvs)"
      and truthy: "py_truthy (dict_get kvs ''call_control_id'' JNull)"
      and hashed: "py_hash (dict_get kvs ''call_control_id'' JNull) = Some k"
      and ready: "db t \<noteq> None \<or> init_db_ok e"
    for kvs k t
  proof -
    obtain t' where "on_hangup e (JObj kvs) t =
       (Inr (jsonify [(''status'', JStr ''received'')] 200),
        t\<lparr>db := Some t', ENDED_CALLS := insert k (ENDED_CALLS t)\<rparr>)"
      using hangup_ready[OF truthy hashed ready] by blast
    then show ?thesis
      by (simp add: webhook_hangup[OF hreq])
  qed
  show ?thesis
    using run_sets[of s cfg ds] webhook_sets[of "run cfg ds s" cfg e req] hang
    by blast
qed

theorem sets_grow_and_routing_is_guarded_witness:
  "KStr ''abc'' \<in> ROUTED_CALLS
     (run ex_cfg [(ex_env, ex_delivery ''call.gather.ended'' (ex_gather ''2''))]
        (init_state None)) \<and>
   ENDED_CALLS (snd (webhook ex_cfg ex_env (ex_delivery ''call.hangup'' ex_hangup)
     (run ex_cfg [(ex_env, ex_delivery ''call.gather.ended'' (ex_gather ''2''))]
        (init_state None)))) = {KStr ''abc''} \<and>
   ROUTED_CALLS (snd (webhook ex_cfg ex_env (ex_delivery ''call.hangup'' ex_hangup)
     (run ex_cfg [(ex_env, ex_delivery ''call.gather.ended'' (ex_gather ''2''))]
        (init_state None)))) = {KStr ''abc''}"
proof -
  let ?t = "run ex_cfg [(ex_env, ex_delivery ''call.gather.ended'' (ex_gather ''2''))]
        (init_state None)"
  have t: "ROUTED_CALLS ?t = {KStr ''abc''}" "ENDED_CALLS ?t = {}"
    by (simp_all add: delivery_eval)
  have h: "read_request (ex_delivery ''call.hangup'' ex_hangup) =
             Inr (JStr ''call.hangup'', JObj ex_hangup) \<and>
        py_truthy (dict_get ex_hangup ''call_control_id'' JNull) \<and>
        py_hash (dict_get ex_hangup ''call_control_id'' JNull) = Some (KStr ''abc'') \<and>
        (db ?t \<noteq> None \<or> init_db_ok ex_env)"
    by (simp add: read_ex_delivery ex_hangup_def dict_get_def py_hash_def ex_env_def)
  from sets_grow_and_routing_is_guarded
    [of "init_state None" ex_cfg
        "[(ex_env, ex_delivery ''call.gather.ended'' (ex_gather ''2''))]"
        ex_env "ex_delivery ''call.hangup'' ex_hangup",
     THEN conjunct2, THEN conjunct2, THEN conjunct2, rule_format, OF h]
  show ?thesis
    by (simp add: t del: run.simps)
qed

subsection \<open>Call records keep distinct ids\<close>

text \<open>
  Only \<^verbatim>\<open>save_call_if_new\<close> writes Call records, and it looks the id up first: no
  run of deliveries gives two Call records one id.
\<close>

lemma save_call_distinct:
  assumes "save_call_if_new e c f to st = Inr d" and "call_ids_distinct st"
  shows "call_ids_distinct d"
  using assms
  by (auto simp: save_call_if_new_def ensure_db_def call_ids_distinct_def stored_calls_def
      empty_tables_def split: option.splits if_splits)

lemma log_event_same_calls:
  assumes "log_event e c ty p st = Inr d"
  shows "stored_calls d = stored_calls st"
  using assms
  by (auto simp: log_event_def ensure_db_def stored_calls_def empty_tables_def
      split: option.splits if_splits)

lemma log_ivr_same_calls:
  assumes "log_ivr_selection e c dg dp st = Inr d"
  shows "stored_calls d = stored_calls st"
  using assms
  by (auto simp: log_ivr_selection_def ensure_db_def stored_calls_def empty_tables_def
      split: option.splits if_splits)

lemma log_transfer_same_calls:
  assumes "log_transfer e c u x st = Inr d"
  shows "stored_calls d = stored_calls st"
  using assms
  by (auto simp: log_transfer_def ensure_db_def stored_calls_def empty_tables_def
      split: option.splits if_splits)

lemma start_menu_db [simp]: "db (start_menu e c s) = db s"
  by (simp add: start_menu_def)

lemma log_event_distinct:
  assumes "log_event e c ty p st = Inr d" and "call_ids_distinct st"
  shows "call_ids_distinct d"
  using assms log_event_same_calls[OF assms(1)] by (simp add: call_ids_distinct_def)

lemma on_initiated_distinct:
  "call_ids_distinct (db s) \<Longrightarrow> call_ids_distinct (db (snd (on_initiated e ev s)))"
  by (auto simp: on_initiated_def Let_def answer_call_def
      intro: save_call_distinct log_event_distinct
      split: json.splits sum.splits)

lemma on_other_same_calls:
  "stored_calls (db (snd (on_other e ty ev s))) = stored_calls (db s)"
  by (auto simp: on_other_def Let_def dest: log_event_same_calls split: json.splits sum.splits)

lemma on_hangup_same_calls:
  "stored_calls (db (snd (on_hangup e ev s))) = stored_calls (db s)"
  by (auto simp: on_hangup_def Let_def dest: log_event_same_calls
      split: json.splits sum.splits option.splits)

lemma on_gather_ended_same_calls:
  "stored_calls (db (snd (on_gather_ended cfg e ev s))) = stored_calls (db s)"
  by (auto simp: on_gather_ended_def Let_def transfer_call_def
      dest!: log_event_same_calls log_ivr_same_calls log_transfer_same_calls
      split: json.splits sum.splits option.splits if_splits)

lemma webhook_calls_distinct:
  assumes "call_ids_distinct (db s)"
  shows "call_ids_distinct (db (snd (webhook cfg e req s)))"
  using assms on_initiated_distinct[of s e] on_other_same_calls[of e _ _ s]
    on_hangup_same_calls[of e _ s] on_gather_ended_same_calls[of cfg e _ s]
  by (simp add: snd_webhook try_body_def call_ids_distinct_def split: sum.splits prod.splits)

lemma run_calls_distinct:
  "call_ids_distinct (db s) \<Longrightarrow> call_ids_distinct (db (run cfg ds s))"
proof (induction ds arbitrary: s)
  case Nil
  then show ?case by simp
next
  case (Cons d ds)
  obtain e req where d: "d = (e, req)" by (cases d)
  from Cons.IH[OF webhook_calls_distinct[OF Cons.prems, of cfg e req]]
  show ?case unfolding d by simp
qed

subsection \<open>Acknowledgement\<close>

lemma ack_jsonify [simp]: "acknowledged (Inr (jsonify ((''status'', v) # rest) 200))"
  by (simp add: acknowledged_def jsonify_def)

lemma on_initiated_ack:
  "fst (on_initiated e ev s) = Inr r \<Longrightarrow> acknowledged (Inr r)"
  by (auto simp: on_initiated_def Let_def answer_call_def
      split: json.splits sum.splits if_splits)

lemma on_other_ack:
  "fst (on_other e ty ev s) = Inr r \<Longrightarrow> acknowledged (Inr r)"
  by (auto simp: on_other_def Let_def split: json.splits sum.splits if_splits)

lemma on_hangup_ack:
  "fst (on_hangup e ev s) = Inr r \<Longrightarrow> acknowledged (Inr r)"
  by (auto simp: on_hangup_def Let_def split: json.splits sum.splits option.splits if_splits)

lemma on_gather_ended_ack:
  "fst (on_gather_ended cfg e ev s) = Inr r \<Longrightarrow> acknowledged (Inr r)"
  by (auto simp: on_gather_ended_def Let_def transfer_call_def
      split: json.splits sum.splits option.splits if_splits)

lemma try_body_ack:
  "fst (try_body cfg e ty ev s) = Inr r \<Longrightarrow> acknowledged (Inr r)"
  using on_initiated_ack on_other_ack on_hangup_ack on_gather_ended_ack
  by (simp add: try_body_def split: if_splits)

text \<open>
  Once the four statements in front of the \<^verbatim>\<open>try\<close> have gone through, the handler
  acknowledges, whatever the store and the provider do.
\<close>

lemma webhook_acknowledges:
  assumes "read_request req = Inr (ty, ev)"
  shows "acknowledged (fst (webhook cfg e req s))"
proof (cases "try_body cfg e ty ev s")
  case (Pair r s')
  then show ?thesis
    using assms try_body_ack[of cfg e ty ev s]
    by (cases r) (simp_all add: webhook_def)
qed

text \<open>
  C4. The handler is meant to acknowledge every request with HTTP 200 and a status field,
  and it does not: a JSON body that is a non-empty list, or an object whose \<^verbatim>\<open>data\<close> is
  \<^verbatim>\<open>null\<close>, makes \<^verbatim>\<open>.get\<close> raise \<^verbatim>\<open>AttributeError\<close> in front of the \<^verbatim>\<open>try\<close>; the
  exception leaves the handler, in any state and any world, and there is no
  acknowledgement.
\<close>

theorem webhook_raises_on_malformed_body:
  "webhook cfg e (Some (JArr [JInt 1])) s = (Inl AttributeError, s) \<and>
   webhook cfg e (Some (JObj [(''data'', JNull)])) s = (Inl AttributeError, s) \<and>
   \<not> acknowledged (fst (webhook cfg e (Some (JArr [JInt 1])) s))"
  by (simp add: webhook_def read_request_def dict_get_def acknowledged_def)

subsection \<open>Digit extraction\<close>

text \<open>
  C7, as the claim states it, fails: a payload whose nested \<^verbatim>\<open>dtmf\<close> dict holds the digits
  \<^verbatim>\<open>2\<close> has a non-empty value at one of the listed locations, and extraction returns it
  when nothing else is there; with a non-empty \<^verbatim>\<open>result\<close> beside it (a string, or a dict
  that holds no digit) extraction returns the empty string.
\<close>

theorem nested_dtmf_not_consulted_counterexample:
  "extract_digits [(''dtmf'', JObj [(''digits'', JStr ''2'')])] = ''2'' \<and>
   first_nonempty_trimmed (stated_locations
     [(''result'', JStr ''completed''), (''dtmf'', JObj [(''digits'', JStr ''2'')])]) = ''2'' \<and>
   extract_digits [(''result'', JStr ''completed''),
                   (''dtmf'', JObj [(''digits'', JStr ''2'')])] = [] \<and>
   first_nonempty_trimmed (stated_locations
     [(''result'', JObj [(''status'', JStr ''done'')]),
      (''dtmf'', JObj [(''digits'', JStr ''2'')])]) = ''2'' \<and>
   extract_digits [(''result'', JObj [(''status'', JStr ''done'')]),
                   (''dtmf'', JObj [(''digits'', JStr ''2'')])] = []"
  by (simp add: extract_digits_def first_nonempty_trimmed_def stated_locations_def dict_get_def
      py_or_def py_str_def py_strip_def py_isspace_def)

text \<open>
  C7, amended. For every gather payload, \<^verbatim>\<open>_extract_digits\<close> returns the first non-empty
  value among four locations in their fixed order, as a trimmed string, and the empty
  string when none of the four holds a non-empty value. The locations are the top-level
  \<^verbatim>\<open>digit\<close>, the top-level \<^verbatim>\<open>digits\<close>, and \<^verbatim>\<open>digits\<close> then \<^verbatim>\<open>digit\<close> of the nested
  object; the nested object is the value under \<^verbatim>\<open>result\<close> when that is non-empty and
  the value under \<^verbatim>\<open>dtmf\<close> otherwise, and it is searched only when it is a dict. A value
  is non-empty when Python takes it for true.
\<close>

theorem extract_digits_priority:
  "extract_digits p = first_nonempty_trimmed (digit_locations p)"
proof (cases "py_truthy (dict_get p ''digit'' JNull) \<or> py_truthy (dict_get p ''digits'' JNull)")
  case True
  then show ?thesis
    by (auto simp: extract_digits_def first_nonempty_trimmed_def digit_locations_def py_or_def)
next
  case False
  then have top: "\<not> py_truthy (dict_get p ''digit'' JNull)"
    "\<not> py_truthy (dict_get p ''digits'' JNull)"
    by simp_all
  have res: "py_or (py_or (dict_get p ''result'' JNull) (dict_get p ''dtmf'' JNull)) (JObj [])
      = nested_object p"
    by (simp add: nested_object_def py_or_def)
  have d: "\<not> py_truthy (py_or (dict_get p ''digit'' JNull) (dict_get p ''digits'' JNull))"
    using top by (simp add: py_or_def)
  have lhs: "extract_digits p =
      (case nested_object p of
         JObj r \<Rightarrow> py_strip (py_str (py_or (py_or (dict_get r ''digits'' JNull)
                      (dict_get r ''digit'' JNull)) (JStr [])))
       | _ \<Rightarrow> [])"
    unfolding extract_digits_def Let_def res using d by simp
  have inner: "py_strip (py_str (py_or (py_or a b) (JStr []))) = first_nonempty_trimmed [a, b]"
    for a b
    by (simp add: py_or_def first_nonempty_trimmed_def py_strip_Nil py_str_def)
  have rhs: "first_nonempty_trimmed (digit_locations p) =
      first_nonempty_trimmed (case nested_object p of
        JObj r \<Rightarrow> [dict_get r ''digits'' JNull, dict_get r ''digit'' JNull] | _ \<Rightarrow> [])"
    using top by (simp add: first_nonempty_trimmed_def digit_locations_def)
  show ?thesis
    unfolding lhs rhs
    by (cases "nested_object p")
       (simp_all add: inner, simp_all add: first_nonempty_trimmed_def)
qed

theorem extract_digits_priority_witness:
  "extract_digits [(''digits'', JStr '' 7 ''), (''dtmf'', JObj [(''digit'', JStr ''3'')])] = ''7''"
  using extract_digits_priority
    [of "[(''digits'', JStr '' 7 ''), (''dtmf'', JObj [(''digit'', JStr ''3'')])]"]
  by (simp add: first_nonempty_trimmed_def digit_locations_def nested_object_def dict_get_def
      py_str_def py_strip_def py_isspace_def)

subsection \<open>The menu's outcome\<close>

text \<open>
  C10. On a \<^verbatim>\<open>call.initiated\<close> delivery during which the answer command is posted and
  succeeds, the handler's response is \<^verbatim>\<open>answered_and_menu_started\<close> whatever the
  menu-start POST does (\<open>m\<close> ranges over its outcomes: an exception, any status code).
\<close>

theorem answered_regardless_of_menu:
  assumes "read_request req = Inr (JStr ''call.initiated'', ev)"
    and "\<exists>c. answer_request c \<in> set (new_posts s (snd (webhook cfg e req s)))"
    and "response_ok (answer_http e)"
  shows "\<forall>m. webhook cfg (e\<lparr>menu_http := m\<rparr>) req s = webhook cfg e req s \<and>
           fst (webhook cfg (e\<lparr>menu_http := m\<rparr>) req s) =
             Inr (jsonify [(''status'', JStr ''answered_and_menu_started'')] 200)"
  using assms
  by (auto simp: webhook_def try_body_def on_initiated_def Let_def answer_call_def
      start_menu_def save_call_if_new_def log_event_def ensure_db_def
      split: json.splits sum.splits if_splits prod.splits option.splits)

theorem answered_regardless_of_menu_witness:
  "fst (webhook ex_cfg (ex_env\<lparr>menu_http := Some 503\<rparr>)
          (ex_delivery ''call.initiated'' ex_initiated) (init_state None)) =
     Inr (jsonify [(''status'', JStr ''answered_and_menu_started'')] 200)"
proof -
  have "answer_request (JStr ''abc'') \<in> set (new_posts (init_state None)
      (snd (webhook ex_cfg ex_env (ex_delivery ''call.initiated'' ex_initiated)
         (init_state None))))"
    by (simp add: delivery_eval)
  then have p: "\<exists>c. answer_request c \<in> set (new_posts (init_state None)
      (snd (webhook ex_cfg ex_env (ex_delivery ''call.initiated'' ex_initiated)
         (init_state None))))"
    by blast
  have a: "response_ok (answer_http ex_env)"
    by (simp add: ex_env_def response_ok_def)
  from answered_regardless_of_menu[OF read_ex_delivery p a]
  show ?thesis by blast
qed



subsection \<open>Validation on the analytics endpoints\<close>

text \<open>
  C9, as the claim states it, fails: the empty string is a department parameter outside
  the three departments (\<^verbatim>\<open>GET /metrics/kpis?department=\<close>), and the endpoint answers
  200 with the KPIs of all departments.
\<close>

theorem empty_department_accepted_counterexample:
  "[] \<notin> valid_departments \<and>
   get_kpis (\<lambda>d. fst (kpis_24h ex_kpi_env d (Some empty_tables)))
     \<lparr>arg_department = Some [], arg_days = None, arg_limit = None\<rparr> =
   \<lparr>api_status = 200,
    api_body = ResultBody \<lparr>kpi_window = ''24h'', kpi_department = ''all'', inbound_volume = 0,
                           selection_rate = 0, transfer_success = 0\<rparr>\<rparr>"
  by (simp add: valid_departments_def get_kpis_def department_invalid_def kpis_24h_def
      ensure_db_def ex_kpi_env_def empty_tables_def calls_since_def count_distinct_def
      selections_all_def transfers_all_def successful_def py_round3_zero)

text \<open>
  C9, amended. A department parameter that is not empty and is none of sales, support and
  porting is rejected by all three endpoints; on \<^verbatim>\<open>/metrics/trend\<close> a \<^verbatim>\<open>days\<close> parameter
  that is not a number or lies outside 1..365 is rejected; on \<^verbatim>\<open>/metrics/recent\<close> a
  \<^verbatim>\<open>limit\<close> parameter that is not a number or lies outside 1..1000 is rejected. Rejected
  means: HTTP 400, the body an error message, no result of a query in it, whatever the
  readers would return. (An empty department parameter is taken as no department.)
\<close>

theorem validation_rejects:
  "(\<forall>d. arg_department a = Some d \<and> d \<noteq> [] \<and> d \<notin> {''sales'', ''support'', ''porting''} \<longrightarrow>
        get_kpis rk a = \<lparr>api_status = 400, api_body = ErrorBody invalid_department_msg\<rparr> \<and>
        rejected (get_trend rt a) \<and> rejected (get_recent_calls rr a)) \<and>
   (\<forall>ds. arg_days a = Some ds \<and>
         (case py_int ds of None \<Rightarrow> True | Some n \<Rightarrow> n < 1 \<or> 365 < n) \<longrightarrow>
         rejected (get_trend rt a)) \<and>
   (\<forall>ls. arg_limit a = Some ls \<and>
         (case py_int ls of None \<Rightarrow> True | Some n \<Rightarrow> n < 1 \<or> 1000 < n) \<longrightarrow>
         rejected (get_recent_calls rr a))"
proof (intro conjI allI impI)
  fix d
  assume d: "arg_department a = Some d \<and> d \<noteq> [] \<and> d \<notin> {''sales'', ''support'', ''porting''}"
  then have inv: "department_invalid (arg_department a)"
    by (simp add: department_invalid_def valid_departments_def)
  show "get_kpis rk a = \<lparr>api_status = 400, api_body = ErrorBody invalid_department_msg\<rparr>"
    using inv by (simp add: get_kpis_def)
  show "rejected (get_trend rt a)"
    using inv by (simp add: get_trend_def rejected_def Let_def split: option.splits)
  show "rejected (get_recent_calls rr a)"
    using inv by (simp add: get_recent_calls_def rejected_def Let_def split: option.splits)
next
  fix ds
  assume "arg_days a = Some ds \<and>
    (case py_int ds of None \<Rightarrow> True | Some n \<Rightarrow> n < 1 \<or> 365 < n)"
  then show "rejected (get_trend rt a)"
    by (auto simp: get_trend_def rejected_def Let_def split: option.splits)
next
  fix ls
  assume "arg_limit a = Some ls \<and>
    (case py_int ls of None \<Rightarrow> True | Some n \<Rightarrow> n < 1 \<or> 1000 < n)"
  then show "rejected (get_recent_calls rr a)"
    by (auto simp: get_recent_calls_def rejected_def Let_def split: option.splits)
qed

lemmas py_int_eval =
  py_int_def int_strip_def int_isspace_def int_body_def is_digit_def

lemma py_int_400: "py_int ''400'' = Some 400"
  by (simp add: py_int_eval)

lemma py_int_abc: "py_int ''abc'' = None"
  by (simp add: py_int_eval)

text \<open>
  Spaces around the digits are dropped; the unit separator, which \<^verbatim>\<open>str.strip\<close> would
  drop, is not, and \<^verbatim>\<open>int\<close> raises.
\<close>

lemma py_int_whitespace:
  "py_int '' 7 '' = Some 7 \<and> py_int [CHR 0x1F, CHR ''7''] = None \<and>
   py_int [CHR ''5'', CHR 0x1E] = None \<and> py_strip [CHR 0x1F, CHR ''7''] = ''7''"
  by (simp add: py_int_eval py_strip_def py_isspace_def)

theorem validation_rejects_witness:
  "get_kpis (\<lambda>d. fst (kpis_24h ex_kpi_env d (Some empty_tables)))
     \<lparr>arg_department = Some ''billing'', arg_days = None, arg_limit = None\<rparr> =
     \<lparr>api_status = 400, api_body = ErrorBody invalid_department_msg\<rparr> \<and>
   rejected (get_trend (\<lambda>n d. Inr ([] :: (string \<times> nat) list))
     \<lparr>arg_department = None, arg_days = Some ''400'', arg_limit = None\<rparr>) \<and>
   rejected (get_trend (\<lambda>n d. Inr ([] :: (string \<times> nat) list))
     \<lparr>arg_department = Some ''sales'', arg_days = Some [CHR 0x1F, CHR ''7''],
      arg_limit = None\<rparr>) \<and>
   rejected (get_recent_calls (\<lambda>n d. Inr ([] :: call_row list))
     \<lparr>arg_department = None, arg_days = None, arg_limit = Some ''abc''\<rparr>) \<and>
   rejected (get_recent_calls (\<lambda>n d. Inr ([] :: call_row list))
     \<lparr>arg_department = None, arg_days = None, arg_limit = Some ''0''\<rparr>)"
proof -
  let ?rk = "\<lambda>d. fst (kpis_24h ex_kpi_env d (Some empty_tables))"
  let ?rt = "\<lambda>(n :: int) (d :: string option). (Inr [] :: exn + (string \<times> nat) list)"
  let ?rr = "\<lambda>(n :: int) (d :: string option). (Inr [] :: exn + call_row list)"
  let ?a1 = "\<lparr>arg_department = Some ''billing'', arg_days = None, arg_limit = None\<rparr>"
  let ?a2 = "\<lparr>arg_department = None, arg_days = Some ''400'', arg_limit = None\<rparr>"
  let ?a3 = "\<lparr>arg_department = Some ''sales'', arg_days = Some [CHR 0x1F, CHR ''7''],
              arg_limit = None\<rparr>"
  let ?a4 = "\<lparr>arg_department = None, arg_days = None, arg_limit = Some ''abc''\<rparr>"
  let ?a5 = "\<lparr>arg_department = None, arg_days = None, arg_limit = Some ''0''\<rparr>"
  have d: "arg_department ?a1 = Some ''billing'' \<and> ''billing'' \<noteq> [] \<and>
           ''billing'' \<notin> {''sales'', ''support'', ''porting''}"
    by simp
  have days: "arg_days ?a2 = Some ''400'' \<and>
      (case py_int ''400'' of None \<Rightarrow> True | Some n \<Rightarrow> n < 1 \<or> 365 < n)"
    by (simp add: py_int_400)
  have sep: "arg_days ?a3 = Some [CHR 0x1F, CHR ''7''] \<and>
      (case py_int [CHR 0x1F, CHR ''7''] of None \<Rightarrow> True | Some n \<Rightarrow> n < 1 \<or> 365 < n)"
    by (simp add: py_int_whitespace)
  have lim: "arg_limit ?a4 = Some ''abc'' \<and>
      (case py_int ''abc'' of None \<Rightarrow> True | Some n \<Rightarrow> n < 1 \<or> 1000 < n)"
    by (simp add: py_int_abc)
  have zero: "arg_limit ?a5 = Some ''0'' \<and>
      (case py_int ''0'' of None \<Rightarrow> True | Some n \<Rightarrow> n < 1 \<or> 1000 < n)"
    by (simp add: py_int_eval)
  have 1: "get_kpis ?rk ?a1 = \<lparr>api_status = 400, api_body = ErrorBody invalid_department_msg\<rparr>"
    using validation_rejects[of ?a1 ?rk ?rt ?rr, THEN conjunct1, rule_format, OF d]
    by (rule conjunct1)
  have 2: "rejected (get_trend ?rt ?a2)"
    by (rule validation_rejects[of ?a2 ?rk ?rt ?rr, THEN conjunct2, THEN conjunct1,
          rule_format, OF days])
  have 3: "rejected (get_trend ?rt ?a3)"
    by (rule validation_rejects[of ?a3 ?rk ?rt ?rr, THEN conjunct2, THEN conjunct1,
          rule_format, OF sep])
  have 4: "rejected (get_recent_calls ?rr ?a4)"
    by (rule validation_rejects[of ?a4 ?rk ?rt ?rr, THEN conjunct2, THEN conjunct2,
          rule_format, OF lim])
  have 5: "rejected (get_recent_calls ?rr ?a5)"
    by (rule validation_rejects[of ?a5 ?rk ?rt ?rr, THEN conjunct2, THEN conjunct2,
          rule_format, OF zero])
  from 1 2 3 4 5 show ?thesis
    by (intro conjI)
qed

subsection \<open>The KPIs\<close>

text \<open>The store after the three calls of \<open>ex_three_calls\<close>.\<close>

lemma ex_three_calls_db:
  "\<exists>t. db ex_three_calls = Some t \<and>
     calls t =
       [\<lparr>call_id = ''A'', call_from = ''+1555'', call_to = ''+1800'',
         call_created_at = ''2026-01-01T10:00:00.000100Z''\<rparr>,
        \<lparr>call_id = ''B'', call_from = ''+1555'', call_to = ''+1800'',
         call_created_at = ''2026-01-01T10:00:00.000100Z''\<rparr>,
        \<lparr>call_id = ''C'', call_from = ''+1555'', call_to = ''+1800'',
         call_created_at = ''2026-01-01T10:00:00.000100Z''\<rparr>] \<and>
     ivr_interactions t =
       [\<lparr>ivr_call_id = ''A'', ivr_digit = ''1'', ivr_department = ''sales'',
         ivr_ts = ''2026-01-01T10:00:00.000300Z''\<rparr>,
        \<lparr>ivr_call_id = ''A'', ivr_digit = ''1'', ivr_department = ''sales'',
         ivr_ts = ''2026-01-01T10:00:00.000300Z''\<rparr>,
        \<lparr>ivr_call_id = ''B'', ivr_digit = ''1'', ivr_department = ''sales'',
         ivr_ts = ''2026-01-01T10:00:00.000300Z''\<rparr>] \<and>
     transfers t =
       [\<lparr>tr_call_id = ''A'', tr_to_sip_uri = ''sip:agent1@sip.telnyx.com'',
         tr_status = ''error'', tr_ts = ''2026-01-01T10:00:00.000400Z''\<rparr>,
        \<lparr>tr_call_id = ''A'', tr_to_sip_uri = ''sip:agent1@sip.telnyx.com'',
         tr_status = ''success'', tr_ts = ''2026-01-01T10:00:00.000400Z''\<rparr>,
        \<lparr>tr_call_id = ''B'', tr_to_sip_uri = ''sip:agent1@sip.telnyx.com'',
         tr_status = ''success'', tr_ts = ''2026-01-01T10:00:00.000400Z''\<rparr>]"
  by (simp add: ex_three_calls_def delivery_eval)

lemma window_2026: "''2025-12-31T12:00:00.000500Z'' \<le> ''2026-01-01T10:00:00.000100Z''"
  by simp

text \<open>
  The doubles at hand: \<^verbatim>\<open>round(2 / 3, 3)\<close> is the double \<^verbatim>\<open>0.667\<close>,
  \<^verbatim>\<open>round(3 / 5, 3)\<close> is the double \<^verbatim>\<open>0.6\<close>, and \<^verbatim>\<open>round(2 / 2, 3)\<close> is
  \<^verbatim>\<open>1.0\<close>.
\<close>

lemma round3_two_thirds: "py_round3 (py_truediv 2 3) = 3003900951456121 / 4503599627370496"
  by code_simp

lemma round3_three_fifths: "py_round3 (py_truediv 3 5) = 5404319552844595 / 9007199254740992"
  by code_simp

lemma round3_one: "py_round3 (py_truediv 2 2) = 1"
  by code_simp

text \<open>
  Ties go to the even digit, and it is the exact value of the double that is rounded:
  \<^verbatim>\<open>round(1 / 16, 3)\<close> is \<^verbatim>\<open>0.062\<close>, and \<^verbatim>\<open>round(1 / 2000, 3)\<close> is \<^verbatim>\<open>0.001\<close>, the
  double \<^verbatim>\<open>0.0005\<close> lying above the decimal.
\<close>

lemma round3_ties:
  "py_round3 (py_truediv 1 16) = 1116892707587883 / 18014398509481984 \<and>
   py_round3 (py_truediv 1 2000) = 1152921504606847 / 1152921504606846976"
  by code_simp

text \<open>
  Asked for a department, \<^verbatim>\<open>kpis_24h\<close> takes the divisor of the selection rate from
  the same filtered join as the dividend: the rate is \<^verbatim>\<open>1.0\<close> as soon as one call of
  the window has a selection for the department, and \<^verbatim>\<open>0.0\<close> otherwise.
\<close>

lemma kpis_department_selection_rate:
  assumes "kpi_sql ke = Some now" and "d \<noteq> []"
  shows "\<exists>k. fst (kpis_24h ke (Some d) (Some t)) = Inr k \<and>
           inbound_volume k = count_distinct (selections_dept (now @ ''Z'') d t) \<and>
           selection_rate k = (if inbound_volume k = 0 then 0 else 1)"
  using assms
  by (simp add: kpis_24h_def ensure_db_def Let_def py_truediv_def fl_div_same
      py_round3_of_one py_round3_zero)

text \<open>
  C8. The selection rate is meant to be M / N and the transfer success S / T, and asked
  for a department \<^verbatim>\<open>kpis_24h\<close> returns neither. After the run \<open>ex_three_calls\<close> the
  store holds three calls of the trailing 24 hours, \<^verbatim>\<open>A\<close>, \<^verbatim>\<open>B\<close> and \<^verbatim>\<open>C\<close>, of which
  \<^verbatim>\<open>A\<close> and \<^verbatim>\<open>B\<close> have a selection (for sales), and three transfers, of which two
  succeeded. Asked without a department, the computation returns the volume 3, the
  selection rate \<^verbatim>\<open>0.667\<close> and the transfer success \<^verbatim>\<open>0.667\<close>. Asked for sales, it
  returns the selection rate \<^verbatim>\<open>1.0\<close>, the calls without a selection having left the
  divisor, and the transfer success \<^verbatim>\<open>0.6\<close>, which is 3 of 5: each transfer of \<^verbatim>\<open>A\<close>
  is counted once for each of the two selections logged for \<^verbatim>\<open>A\<close>.
\<close>

theorem kpis_department_rates_diverge:
  "map call_id (stored_calls (db ex_three_calls)) = [''A'', ''B'', ''C''] \<and>
   map call_created_at (stored_calls (db ex_three_calls)) =
     [''2026-01-01T10:00:00.000100Z'', ''2026-01-01T10:00:00.000100Z'',
      ''2026-01-01T10:00:00.000100Z''] \<and>
   kpi_sql ex_kpi_env = Some ''2025-12-31T12:00:00.000500'' \<and>
   map (\<lambda>i. (ivr_call_id i, ivr_department i)) (stored_ivr (db ex_three_calls)) =
     [(''A'', ''sales''), (''A'', ''sales''), (''B'', ''sales'')] \<and>
   map (\<lambda>t. (tr_call_id t, tr_status t)) (stored_transfers (db ex_three_calls)) =
     [(''A'', ''error''), (''A'', ''success''), (''B'', ''success'')] \<and>
   fst (kpis_24h ex_kpi_env None (db ex_three_calls)) =
     Inr \<lparr>kpi_window = ''24h'', kpi_department = ''all'', inbound_volume = 3,
          selection_rate = 3003900951456121 / 4503599627370496,
          transfer_success = 3003900951456121 / 4503599627370496\<rparr> \<and>
   fst (kpis_24h ex_kpi_env (Some ''sales'') (db ex_three_calls)) =
     Inr \<lparr>kpi_window = ''24h'', kpi_department = ''sales'', inbound_volume = 2,
          selection_rate = 1,
          transfer_success = 5404319552844595 / 9007199254740992\<rparr>"
proof -
  obtain t where t: "db ex_three_calls = Some t"
    and c: "calls t =
       [\<lparr>call_id = ''A'', call_from = ''+1555'', call_to = ''+1800'',
         call_created_at = ''2026-01-01T10:00:00.000100Z''\<rparr>,
        \<lparr>call_id = ''B'', call_from = ''+1555'', call_to = ''+1800'',
         call_created_at = ''2026-01-01T10:00:00.000100Z''\<rparr>,
        \<lparr>call_id = ''C'', call_from = ''+1555'', call_to = ''+1800'',
         call_created_at = ''2026-01-01T10:00:00.000100Z''\<rparr>]"
    and i: "ivr_interactions t =
       [\<lparr>ivr_call_id = ''A'', ivr_digit = ''1'', ivr_department = ''sales'',
         ivr_ts = ''2026-01-01T10:00:00.000300Z''\<rparr>,
        \<lparr>ivr_call_id = ''A'', ivr_digit = ''1'', ivr_department = ''sales'',
         ivr_ts = ''2026-01-01T10:00:00.000300Z''\<rparr>,
        \<lparr>ivr_call_id = ''B'', ivr_digit = ''1'', ivr_department = ''sales'',
         ivr_ts = ''2026-01-01T10:00:00.000300Z''\<rparr>]"
    and tr: "transfers t =
       [\<lparr>tr_call_id = ''A'', tr_to_sip_uri = ''sip:agent1@sip.telnyx.com'',
         tr_status = ''error'', tr_ts = ''2026-01-01T10:00:00.000400Z''\<rparr>,
        \<lparr>tr_call_id = ''A'', tr_to_sip_uri = ''sip:agent1@sip.telnyx.com'',
         tr_status = ''success'', tr_ts = ''2026-01-01T10:00:00.000400Z''\<rparr>,
        \<lparr>tr_call_id = ''B'', tr_to_sip_uri = ''sip:agent1@sip.telnyx.com'',
         tr_status = ''success'', tr_ts = ''2026-01-01T10:00:00.000400Z''\<rparr>]"
    using ex_three_calls_db by blast
  have w: "calls_since ''2025-12-31T12:00:00.000500Z'' t = calls t"
    using window_2026 by (simp add: calls_since_def c)
  have all: "count_distinct (map call_id (calls t)) = 3"
    "count_distinct (selections_all ''2025-12-31T12:00:00.000500Z'' t) = 2"
    "length (transfers_all ''2025-12-31T12:00:00.000500Z'' t) = 3"
    "successful (transfers_all ''2025-12-31T12:00:00.000500Z'' t) = 2"
    by (simp_all add: count_distinct_def selections_all_def transfers_all_def successful_def
        w c i tr)
  have dept: "count_distinct (selections_dept ''2025-12-31T12:00:00.000500Z'' ''sales'' t) = 2"
    "length (transfers_dept ''2025-12-31T12:00:00.000500Z'' ''sales'' t) = 5"
    "successful (transfers_dept ''2025-12-31T12:00:00.000500Z'' ''sales'' t) = 3"
    by (simp_all add: count_distinct_def selections_dept_def transfers_dept_def successful_def
        w c i tr)
  have ne: "transfers_all ''2025-12-31T12:00:00.000500Z'' t \<noteq> []"
    "transfers_dept ''2025-12-31T12:00:00.000500Z'' ''sales'' t \<noteq> []"
    using all(3) dept(2) by auto
  have none: "fst (kpis_24h ex_kpi_env None (db ex_three_calls)) =
     Inr \<lparr>kpi_window = ''24h'', kpi_department = ''all'', inbound_volume = 3,
          selection_rate = py_round3 (py_truediv 2 3),
          transfer_success = py_round3 (py_truediv 2 3)\<rparr>"
    using all ne
    by (simp add: t kpis_24h_def ensure_db_def ex_kpi_env_def Let_def w)
  have sales: "fst (kpis_24h ex_kpi_env (Some ''sales'') (db ex_three_calls)) =
     Inr \<lparr>kpi_window = ''24h'', kpi_department = ''sales'', inbound_volume = 2,
          selection_rate = py_round3 (py_truediv 2 2),
          transfer_success = py_round3 (py_truediv 3 5)\<rparr>"
    using dept ne
    by (simp add: t kpis_24h_def ensure_db_def ex_kpi_env_def Let_def w)
  have rows: "map call_id (stored_calls (db ex_three_calls)) = [''A'', ''B'', ''C'']"
    "map call_created_at (stored_calls (db ex_three_calls)) =
     [''2026-01-01T10:00:00.000100Z'', ''2026-01-01T10:00:00.000100Z'',
      ''2026-01-01T10:00:00.000100Z'']"
    "kpi_sql ex_kpi_env = Some ''2025-12-31T12:00:00.000500''"
    "map (\<lambda>i. (ivr_call_id i, ivr_department i)) (stored_ivr (db ex_three_calls)) =
     [(''A'', ''sales''), (''A'', ''sales''), (''B'', ''sales'')]"
    "map (\<lambda>t. (tr_call_id t, tr_status t)) (stored_transfers (db ex_three_calls)) =
     [(''A'', ''error''), (''A'', ''success''), (''B'', ''success'')]"
    by (simp_all add: t c i tr stored_calls_def stored_ivr_def stored_transfers_def
        ex_kpi_env_def)
  show ?thesis
    unfolding none sales round3_two_thirds round3_three_fifths round3_one
    using rows by simp
qed

text \<open>
  The window is cut by comparing texts. \<^verbatim>\<open>isoformat()\<close> prints no fraction when the
  microseconds are zero, and \<^verbatim>\<open>Z\<close> sorts after the point: a call recorded at 10:00:00
  sharp is counted by a computation whose cutoff is half a second later.
\<close>

lemma kpis_24h_counts_call_before_cutoff:
  "fst (kpis_24h \<lparr>kpi_init_db_ok = True, kpi_sql = Some ''2026-01-01T10:00:00.500000''\<rparr> None
     (Some (empty_tables\<lparr>calls :=
        [\<lparr>call_id = ''A'', call_from = ''+1555'', call_to = ''+1800'',
          call_created_at = ''2026-01-01T10:00:00Z''\<rparr>]\<rparr>))) =
   Inr \<lparr>kpi_window = ''24h'', kpi_department = ''all'', inbound_volume = 1,
        selection_rate = 0, transfer_success = 0\<rparr>"
  by (simp add: kpis_24h_def ensure_db_def empty_tables_def calls_since_def count_distinct_def
      selections_all_def transfers_all_def successful_def py_round3_zero py_truediv_zero)

end
